theory Spec2Isabelle
  imports Complex_Main "HOL-Library.Sublist"
begin

section \<open>Values of a parsed request body\<close>

text \<open>
  \<^verbatim>\<open>request.json\<close> yields the Python object of the JSON body: \<^verbatim>\<open>None\<close>, a bool, an int,
  a float, a str, a list or a dict. A dict is kept as a list of (key, value) pairs, read
  with \<^const>\<open>map_of\<close> (the first pair of a key is its entry);
  \<^verbatim>\<open>JFloat\<close> carries the value of a finite float (infinities and NaN, which the parser
  accepts as an extension and which are all truthy, are not represented). Characters are
  the code points below 256.
\<close>

datatype json =
    JNull
  | JBool bool
  | JInt int
  | JFloat rat
  | JStr string
  | JArr "json list"
  | JObj "(string \<times> json) list"

text \<open>Python's truth value of an object, as \<^verbatim>\<open>not x\<close> and \<^verbatim>\<open>x and y\<close> test it.\<close>

fun truthy :: "json \<Rightarrow> bool" where
  "truthy JNull = False"
| "truthy (JBool b) = b"
| "truthy (JInt i) = (i \<noteq> 0)"
| "truthy (JFloat r) = (r \<noteq> 0)"
| "truthy (JStr s) = (s \<noteq> [])"
| "truthy (JArr xs) = (xs \<noteq> [])"
| "truthy (JObj kvs) = (kvs \<noteq> [])"

text \<open>\<^verbatim>\<open>type(x).__name__\<close>, which the message of an AttributeError quotes.\<close>

fun type_name :: "json \<Rightarrow> string" where
  "type_name JNull = ''NoneType''"
| "type_name (JBool b) = ''bool''"
| "type_name (JInt i) = ''int''"
| "type_name (JFloat r) = ''float''"
| "type_name (JStr s) = ''str''"
| "type_name (JArr xs) = ''list''"
| "type_name (JObj kvs) = ''dict''"

section \<open>Exceptions\<close>

text \<open>
  The exceptions the three handlers can meet inside their \<^verbatim>\<open>try\<close> block:
  \<^verbatim>\<open>.get\<close> on an object that is not a dict, \<^verbatim>\<open>[1]\<close> on a one-element list, and whatever
  the model client raises (kept by its message).
\<close>

datatype exn =
    AttributeError string string
  | IndexError
  | UpstreamError string

text \<open>\<^verbatim>\<open>str(e)\<close>.\<close>

fun exn_str :: "exn \<Rightarrow> string" where
  "exn_str (AttributeError ty attr) =
     [CHR 0x27] @ ty @ [CHR 0x27] @ '' object has no attribute '' @ [CHR 0x27] @ attr @ [CHR 0x27]"
| "exn_str IndexError = ''list index out of range''"
| "exn_str (UpstreamError m) = m"

section \<open>Dictionary access\<close>

text \<open>\<^verbatim>\<open>d.get(k, default)\<close> on a dict; \<^verbatim>\<open>d.get(k)\<close> is the same with default \<^verbatim>\<open>None\<close>.\<close>

definition dict_get :: "(string \<times> json) list \<Rightarrow> string \<Rightarrow> json \<Rightarrow> json" where
  "dict_get d k dflt = (case map_of d k of None \<Rightarrow> dflt | Some v \<Rightarrow> v)"

section \<open>String operations\<close>

text \<open>\<^verbatim>\<open>str.isspace\<close> on one character (code points below 256).\<close>

definition py_isspace :: "char \<Rightarrow> bool" where
  "py_isspace c = ((of_char c :: nat) \<in> {9, 10, 11, 12, 13, 28, 29, 30, 31, 32, 133, 160})"

text \<open>\<^verbatim>\<open>s.strip()\<close>.\<close>

definition py_strip :: "string \<Rightarrow> string" where
  "py_strip s = rev (dropWhile py_isspace (rev (dropWhile py_isspace s)))"

text \<open>
  \<^verbatim>\<open>s.startswith(p)\<close> is \<^term>\<open>prefix p s\<close>, \<^verbatim>\<open>s.endswith(p)\<close> is \<^term>\<open>suffix p s\<close>,
  \<^verbatim>\<open>s[n:]\<close> is \<^term>\<open>drop n s\<close>, \<^verbatim>\<open>p in s\<close> is \<^term>\<open>sublist p s\<close>.
  \<^verbatim>\<open>s[:-3]\<close> is \<^term>\<open>take (length s - 3) s\<close>.
\<close>

text \<open>
  \<^verbatim>\<open>s.split('\n', 1)[1]\<close>: the text after the first newline; without a newline the
  split has one element and the index raises.
\<close>

definition split_newline_1 :: "string \<Rightarrow> exn + string" where
  "split_newline_1 s =
     (case dropWhile (\<lambda>c. c \<noteq> CHR 0x0A) s of
        [] \<Rightarrow> Inl IndexError
      | nl # rest \<Rightarrow> Inr rest)"

text \<open>
  An f-string field \<^verbatim>\<open>{v}\<close>: a str is inserted as it is; for any other object Python
  inserts \<^verbatim>\<open>str(v)\<close>, a built-in that is taken as the parameter \<open>fmt\<close>.
\<close>

definition py_format :: "(json \<Rightarrow> string) \<Rightarrow> json \<Rightarrow> string" where
  "py_format fmt v = (case v of JStr s \<Rightarrow> s | _ \<Rightarrow> fmt v)"

section \<open>Response cleanup\<close>

text \<open>Lines 135-143: the cleanup of the visualization in \<^verbatim>\<open>analyze\<close>.\<close>

definition analyze_cleanup :: "string \<Rightarrow> string" where
  "analyze_cleanup raw =
     (let visualization = py_strip raw;
          visualization = (if prefix ''```html'' visualization then drop 7 visualization
                           else visualization);
          visualization = (if prefix ''```'' visualization then drop 3 visualization
                           else visualization);
          visualization = (if suffix ''```'' visualization then take (length visualization - 3) visualization
                           else visualization)
      in visualization)"

text \<open>Lines 226-236: the cleanup in \<^verbatim>\<open>convert_format\<close>, final \<^verbatim>\<open>strip\<close> included.\<close>

definition convert_cleanup :: "string \<Rightarrow> exn + string" where
  "convert_cleanup raw =
     (let converted = py_strip raw
      in case (if prefix ''```latex'' converted \<or> prefix ''```markdown'' converted
               then split_newline_1 converted else Inr converted) of
           Inl e \<Rightarrow> Inl e
         | Inr converted \<Rightarrow>
             (let converted = (if prefix ''```'' converted then drop 3 converted else converted);
                  converted = (if suffix ''```'' converted then take (length converted - 3) converted
                               else converted)
              in Inr (py_strip converted)))"

text \<open>Lines 309-318: the cleanup in \<^verbatim>\<open>ocr\<close>, final \<^verbatim>\<open>strip\<close> included.\<close>

definition ocr_cleanup :: "string \<Rightarrow> string" where
  "ocr_cleanup raw =
     (let latex_code = py_strip raw;
          latex_code = (if prefix ''```latex'' latex_code then drop 8 latex_code
                        else latex_code);
          latex_code = (if prefix ''```'' latex_code then drop 3 latex_code else latex_code);
          latex_code = (if suffix ''```'' latex_code then take (length latex_code - 3) latex_code
                        else latex_code)
      in py_strip latex_code)"

section \<open>Prompts\<close>

text \<open>The f-string of lines 41-59, one literal per source line.\<close>

definition explanation_prompt :: "string \<Rightarrow> string \<Rightarrow> string" where
  \<open>explanation_prompt context full_context =
     ''\<newline>''
     @ ''        You are an expert physics and mathematics tutor.\<newline>''
     @ ''        \<newline>''
     @ ''        Target Formula/Concept: "''
     @ context
     @ ''"\<newline>''
     @ ''        \<newline>''
     @ ''        Full Document Context:\<newline>''
     @ ''        "''
     @ full_context
     @ ''"\<newline>''
     @ ''        \<newline>''
     @ ''        Task:\<newline>''
     @ ''        1. Analyze the "Target Formula/Concept" within the context of the "Full Document Context".\<newline>''
     @ ''        2. Provide a brief, clear, and insightful explanation. Focus on the "why" and "how".\<newline>''
     @ ''        3. **LANGUAGE DETECTION**: Detect the language used in the "Full Document Context" (e.g., English, Chinese, French). \<newline>''
     @ ''        4. **OUTPUT LANGUAGE**: Your explanation MUST be in the SAME language as the "Full Document Context". If the context is mixed, prioritize the language of the descriptive text surrounding the formula.\<newline>''
     @ ''        5. **MATH RENDERING**: If your explanation includes mathematical formulas, YOU MUST wrap them in standard LaTeX math delimiters:\<newline>''
     @ ''           - Use $...$ for inline math (e.g., $E=mc^2$).\<newline>''
     @ ''           - Use $$...$$ for display math.\<newline>''
     @ ''           - DO NOT use markdown code blocks for math.\<newline>''
     @ ''        6. Return ONLY the explanation text.\<newline>''
     @ ''        ''\<close>

text \<open>The f-string of lines 83-126.\<close>

definition viz_prompt :: "string \<Rightarrow> string \<Rightarrow> string \<Rightarrow> string" where
  \<open>viz_prompt context explanation full_context =
     ''\<newline>''
     @ ''        You are an expert frontend developer and physics simulation specialist.\<newline>''
     @ ''        \<newline>''
     @ ''        Task: Create a **Dynamic, Interactive Physics Simulation** using HTML5 Canvas and JavaScript.\<newline>''
     @ ''        \<newline>''
     @ ''        **Source Material**:\<newline>''
     @ ''        1. **Target Concept**: "''
     @ context
     @ ''"\<newline>''
     @ ''        2. **Physics Logic (Source of Truth for Formulas)**: \<newline>''
     @ ''           "''
     @ explanation
     @ ''"\<newline>''
     @ ''        3. **Scenario Context (Source of Truth for Environment/Parameters)**: \<newline>''
     @ ''           "''
     @ full_context
     @ ''"\<newline>''
     @ ''        \<newline>''
     @ ''        **Implementation Strategy**:\<newline>''
     @ ''        1. **Analyze the Physics**: Use the "Physics Logic" to determine the governing equations (kinematics, dynamics, wave equations, etc.).\<newline>''
     @ ''        2. **Extract Parameters**: Scan the "Scenario Context" for specific values (e.g., "velocity of 20m/s", "angle of 45 degrees", "mass of 5kg"). \<newline>''
     @ ''           - **CRITICAL**: If the context mentions specific numbers, YOU MUST set them as the initial values for your simulation variables.\<newline>''
     @ ''        3. **Design the Visuals**: Use the "Scenario Context" to decide what to draw (e.g., if it mentions a "cliff", draw a cliff; if "spring", draw a spring).\<newline>''
     @ ''        \<newline>''
     @ ''        CRITICAL REQUIREMENTS:\<newline>''
     @ ''        1. **Relevance**: The simulation MUST directly visualize the specific physics concept described.\<newline>''
     @ ''           - Use the context to understand specific scenarios.\<newline>''
     @ ''           - If it's a projectile, show a projectile.\<newline>''
     @ ''           - If it's a wave, show a wave.\<newline>''
     @ ''           - If it's a field, show vector fields or particles in a field.\<newline>''
     @ ''           - **DO NOT default to a pendulum or spring unless the concept specifically calls for it.**\<newline>''
     @ ''        \<newline>''
     @ ''        2. **Physics Accuracy**: Use `requestAnimationFrame` to animate the system based on real physics equations derived from the concept.\<newline>''
     @ ''        \<newline>''
     @ ''        3. **Interactivity**: Include HTML range sliders to adjust key parameters relevant to the specific model (e.g., initial velocity, charge, frequency, mass).\<newline>''
     @ ''        \<newline>''
     @ ''        4. **Style**: \<newline>''
     @ ''          - Background: Dark (`#000` or `#111`).\<newline>''
     @ ''          - Text: Light (`#eee`).\<newline>''
     @ ''          - Controls: Minimalist, styled for dark mode.\<newline>''
     @ ''        \<newline>''
     @ ''        5. **Language Adaptation**:\<newline>''
     @ ''          - **LANGUAGE DETECTION**: Detect the language used in the "Full Document Context" (e.g., English, Chinese, French).\<newline>''
     @ ''          - **OUTPUT LANGUAGE**: Any text displayed in the simulation (labels, titles, slider names, instructions) MUST be in the SAME language as the "Full Document Context". If the context is mixed, prioritize the language of the descriptive text surrounding the formula.\<newline>''
     @ ''\<newline>''
     @ ''        6. **Output Format**:\<newline>''
     @ ''          - Return **ONLY** the HTML snippet containing the container `div`, controls, and the `script` tag.\<newline>''
     @ ''          - Do NOT include `<html>`, `<head>`, `<body>`, or markdown code fences.\<newline>''
     @ ''          - The root container must have `width: 100%; height: 300px;`.\<newline>''
     @ ''        ''\<close>

text \<open>The f-string of lines 179-196 (the branch \<^verbatim>\<open>target_format == 'tex'\<close>).\<close>

definition tex_prompt :: "string \<Rightarrow> string" where
  \<open>tex_prompt content =
     ''\<newline>''
     @ ''            Convert the following Markdown/LaTeX mixed content into a pure, compile-ready LaTeX document body.\<newline>''
     @ ''            \<newline>''
     @ ''            Rules:\<newline>''
     @ ''            1. Convert Markdown headers (#, ##) to LaTeX sections ('' @ [CHR 0x5C] @ ''section, '' @ [CHR 0x5C] @ ''subsection).\<newline>''
     @ ''            2. Convert Markdown lists (- , 1.) to LaTeX lists (itemize, enumerate).\<newline>''
     @ ''            3. Convert Markdown bold/italic to LaTeX ('' @ [CHR 0x5C] @ ''textbf, '' @ [CHR 0x5C] @ ''textit).\<newline>''
     @ ''            4. **COLOR PRESERVATION**:\<newline>''
     @ ''               - Keep `'' @ [CHR 0x5C] @ ''textcolor{color}{text}` as is.\<newline>''
     @ ''               - Convert `<font color="color">text</font>` to `'' @ [CHR 0x5C] @ ''textcolor{color}{text}` (if present).\<newline>''
     @ ''               - Convert `<span style="color: color">text</span>` to `'' @ [CHR 0x5C] @ ''textcolor{color}{text}` (if present).\<newline>''
     @ ''            5. Keep existing LaTeX math ($...$, $$...$$) unchanged.\<newline>''
     @ ''            6. Return ONLY the converted LaTeX body code. Do NOT wrap in '' @ [CHR 0x5C] @ ''documentclass.\<newline>''
     @ ''            7. Do not include markdown code fences.\<newline>''
     @ ''            \<newline>''
     @ ''            Content:\<newline>''
     @ ''            "''
     @ content
     @ ''"\<newline>''
     @ ''            ''\<close>

text \<open>The f-string of lines 198-217 (the \<^verbatim>\<open>else\<close> branch).\<close>

definition md_prompt :: "string \<Rightarrow> string" where
  \<open>md_prompt content =
     ''\<newline>''
     @ ''            Convert the following LaTeX content into clean Markdown.\<newline>''
     @ ''            \<newline>''
     @ ''            Rules:\<newline>''
     @ ''            1. **COLOR PRESERVATION (HIGHEST PRIORITY)**: \<newline>''
     @ ''               - **KEEP** `'' @ [CHR 0x5C] @ ''textcolor{color}{text}` commands AS IS. \<newline>''
     @ ''               - **DO NOT** convert color to bold (`**`) or italic (`*`).\<newline>''
     @ ''               - **DO NOT** convert color to HTML.\<newline>''
     @ ''               - Convert `{'' @ [CHR 0x5C] @ ''color{color} text}` to `'' @ [CHR 0x5C] @ ''textcolor{color}{text}`.\<newline>''
     @ ''            2. Convert LaTeX sections ('' @ [CHR 0x5C] @ ''section, '' @ [CHR 0x5C] @ ''subsection) to Markdown headers (#, ##).\<newline>''
     @ ''            3. Convert LaTeX lists to Markdown lists.\<newline>''
     @ ''            4. Convert LaTeX text formatting ('' @ [CHR 0x5C] @ ''textbf, '' @ [CHR 0x5C] @ ''textit) to Markdown (**...**, *...*).\<newline>''
     @ ''               - Only convert `'' @ [CHR 0x5C] @ ''textbf` and `'' @ [CHR 0x5C] @ ''textit`. DO NOT touch `'' @ [CHR 0x5C] @ ''textcolor`.\<newline>''
     @ ''            5. Keep LaTeX math ($...$, $$...$$) unchanged.\<newline>''
     @ ''            6. Return ONLY the converted Markdown content.\<newline>''
     @ ''            7. Do not include markdown code fences.\<newline>''
     @ ''            \<newline>''
     @ ''            Content:\<newline>''
     @ ''            "''
     @ content
     @ ''"\<newline>''
     @ ''            ''\<close>

text \<open>The string literal of lines 266-280.\<close>

definition base_system_prompt :: "string" where
  \<open>base_system_prompt =
     ''Transcribe this handwritten note into valid XeLaTeX code.\<newline>''
     @ ''\<newline>''
     @ ''RULES:\<newline>''
     @ ''1. Return ONLY the body content (formulas, text, etc.).\<newline>''
     @ ''2. Do NOT include '' @ [CHR 0x5C] @ ''documentclass, '' @ [CHR 0x5C] @ ''begin{document}, '' @ [CHR 0x5C] @ ''maketitle, or '' @ [CHR 0x5C] @ ''end{document}.\<newline>''
     @ ''3. Assume standard packages (amsmath, amssymb, geometry, xcolor) are already loaded.\<newline>''
     @ ''4. Use standard LaTeX math mode ($...$ for inline, $$...$$ for display).\<newline>''
     @ ''5. Correct any obvious physical or mathematical errors based on context.\<newline>''
     @ ''6. Return ONLY the LaTeX code, no markdown fencing.\<newline>''
     @ ''7. **COLOR DETECTION**: \<newline>''
     @ ''   - Detect the color of the handwritten strokes.\<newline>''
     @ ''   - If the handwriting is **RED**, wrap the corresponding LaTeX text/formula in '' @ [CHR 0x5C] @ ''textcolor{red}{...}.\<newline>''
     @ ''   - If the handwriting is another distinct color (e.g., blue, green), use '' @ [CHR 0x5C] @ ''textcolor{name}{...} accordingly.\<newline>''
     @ ''   - Default/White/Black text should NOT have color commands.\<newline>''\<close>

text \<open>The f-string appended at line 283.\<close>

definition previous_block :: "string \<Rightarrow> string" where
  \<open>previous_block previous_context =
     ''\<newline>''
     @ ''\<newline>''
     @ ''PREVIOUS CONTEXT (The text immediately preceding this image):\<newline>''
     @ ''...''
     @ previous_context
     @ ''\<newline>''
     @ ''\<newline>''
     @ ''INSTRUCTION: Ensure your transcription flows naturally from this previous context.''\<close>

text \<open>The f-string appended at line 286.\<close>

definition next_block :: "string \<Rightarrow> string" where
  \<open>next_block next_context =
     ''\<newline>''
     @ ''\<newline>''
     @ ''NEXT CONTEXT (The text immediately following this image):\<newline>''
     @ next_context
     @ ''...\<newline>''
     @ ''\<newline>''
     @ ''INSTRUCTION: Ensure your transcription connects smoothly to this next context.''\<close>

section \<open>The model client\<close>

text \<open>
  \<^verbatim>\<open>OpenAI(api_key=..., base_url=...)\<close> and one
  \<^verbatim>\<open>client.chat.completions.create(model=..., messages=..., max_tokens=...)\<close>
  are recorded as a \<open>call\<close> with the arguments as the handler passes them.
\<close>

datatype client = Client (api_key: json) (base_url: json)

datatype part = TextPart string | ImageUrlPart json

datatype msg_content = Text string | Parts "part list"

datatype message = Message (msg_role: string) (msg_content: msg_content)

datatype call =
  Call (call_client: client) (call_model: json) (call_messages: "message list")
    (call_max_tokens: "nat option")

text \<open>The \<^verbatim>\<open>messages\<close> arguments of the four calls (lines 63-66, 130-133, 221-224, 292-305).\<close>

definition explanation_messages :: "string \<Rightarrow> string \<Rightarrow> message list" where
  "explanation_messages context full_context =
     [Message ''system'' (Text ''You are a helpful physics tutor.''),
      Message ''user'' (Text (explanation_prompt context full_context))]"

definition viz_messages :: "string \<Rightarrow> string \<Rightarrow> string \<Rightarrow> message list" where
  "viz_messages context explanation full_context =
     [Message ''system'' (Text ''You are a code generator. Output raw HTML/JS only.''),
      Message ''user'' (Text (viz_prompt context explanation full_context))]"

definition convert_messages :: "string \<Rightarrow> message list" where
  "convert_messages prompt =
     [Message ''system'' (Text ''You are a document format converter.''),
      Message ''user'' (Text prompt)]"

definition ocr_messages :: "string \<Rightarrow> json \<Rightarrow> message list" where
  "ocr_messages prompt image_data =
     [Message ''user'' (Parts [TextPart prompt, ImageUrlPart image_data])]"

text \<open>
  The remote service is a parameter \<open>invoke\<close> of the handlers. \<open>Inr s\<close>: the expression
  \<^verbatim>\<open>response.choices[0].message.content\<close> is the str \<open>s\<close>. \<open>Inl m\<close>: an exception \<open>e\<close>
  with \<^verbatim>\<open>str(e) = m\<close> was raised on the way (by the client, the remote call or the
  reading of the content).
\<close>

type_synonym invoker = "call \<Rightarrow> string + string"

text \<open>
  The test \<^verbatim>\<open>if cfg and cfg.get('apiKey')\<close> with the client and model built in its
  first branch (lines 29-37, 72-80, 166-174 and 255-263). \<open>Inr None\<close> is the
  \<^verbatim>\<open>else\<close> branch; a truthy \<open>cfg\<close> that is not a dict has no \<^verbatim>\<open>get\<close>.
\<close>

definition resolve_config :: "json \<Rightarrow> exn + (client \<times> json) option" where
  "resolve_config cfg =
     (if \<not> truthy cfg then Inr None
      else case cfg of
        JObj c \<Rightarrow>
          (if truthy (dict_get c ''apiKey'' JNull)
           then Inr (Some (Client (dict_get c ''apiKey'' JNull) (dict_get c ''baseUrl'' JNull),
                           dict_get c ''model'' JNull))
           else Inr None)
      | _ \<Rightarrow> Inl (AttributeError (type_name cfg) ''get''))"

section \<open>The server log\<close>

text \<open>
  \<^verbatim>\<open>print(line)\<close> writes to the standard output of the server and raises when that
  stream cannot encode the line. The stream is a parameter \<open>out\<close> of the handlers:
  \<open>out line = None\<close> when the line is written, \<open>out line = Some m\<close> when \<^verbatim>\<open>print\<close> raises an
  exception \<open>e\<close> with \<^verbatim>\<open>str(e) = m\<close>. It is asked about the lines that carry a field: line
  176 with \<^verbatim>\<open>target_format\<close>, and lines 151, 239 and 321 with the exception of the
  \<^verbatim>\<open>except\<close> block. Lines 40, 82 and 289 are fixed ASCII texts and are taken as written.
\<close>

type_synonym stdout = "string \<Rightarrow> string option"

section \<open>The three handlers\<close>

text \<open>
  A response is the JSON body with its HTTP status (\<^verbatim>\<open>jsonify(...)\<close> alone is status
  200). A handler either returns a response (\<open>Responded\<close>) or lets an exception with
  message \<open>m\<close> escape (\<open>Unhandled m\<close>); Flask then answers by itself with status 500 and
  a page that is not a JSON object. Each handler yields this outcome together with the
  list of the model calls it made, in order. \<open>Raises m\<close> is a request whose
  \<^verbatim>\<open>request.json\<close> raises an exception with message \<open>m\<close>; \<open>Parsed data\<close> is a request
  whose body parses to \<open>data\<close>.
\<close>

type_synonym response = "json \<times> nat"

datatype outcome = Responded response | Unhandled string

datatype request_json = Raises string | Parsed json

definition error_response :: "string \<Rightarrow> nat \<Rightarrow> response" where
  "error_response msg status = (JObj [(''error'', JStr msg)], status)"

text \<open>
  The \<^verbatim>\<open>except Exception as e\<close> block of a handler (lines 150-152, 238-240, 320-322):
  \<^verbatim>\<open>print(f"Error in <name>: {e}")\<close>, then the response \<^verbatim>\<open>{'error': str(e)}\<close> with status
  500. An exception of the \<^verbatim>\<open>print\<close> is raised outside any \<^verbatim>\<open>try\<close> and leaves the handler.
\<close>

definition except_block :: "stdout \<Rightarrow> string \<Rightarrow> string \<Rightarrow> outcome" where
  "except_block out name e =
     (case out (''Error in '' @ name @ '': '' @ e) of
        None \<Rightarrow> Responded (error_response e 500)
      | Some m \<Rightarrow> Unhandled m)"

definition analyze ::
  "stdout \<Rightarrow> (json \<Rightarrow> string) \<Rightarrow> invoker \<Rightarrow> request_json \<Rightarrow> outcome \<times> call list" where
  "analyze out fmt invoke request =
     (case request of
        Raises m \<Rightarrow> (except_block out ''analyze'' m, [])
      | Parsed data \<Rightarrow>
     (case data of
        JObj d \<Rightarrow>
          (let context = dict_get d ''context'' (JStr '''');
               full_context = dict_get d ''fullContext'' (JStr '''');
               reasoning_config = dict_get d ''reasoningConfig'' (JObj []);
               vision_config = dict_get d ''visionConfig'' (JObj [])
           in if \<not> truthy context
              then (Responded (error_response ''No context provided'' 400), [])
              else
          (case resolve_config reasoning_config of
             Inl e \<Rightarrow> (except_block out ''analyze'' (exn_str e), [])
           | Inr None \<Rightarrow>
               (Responded (error_response
                  ''Reasoning API configuration missing. Please configure settings.'' 401), [])
           | Inr (Some (current_reasoning_client, current_reasoning_model)) \<Rightarrow>
          (let explanation_call =
                 Call current_reasoning_client current_reasoning_model
                   (explanation_messages (py_format fmt context) (py_format fmt full_context))
                   None
           in case invoke explanation_call of
                Inl m \<Rightarrow> (except_block out ''analyze'' m, [explanation_call])
              | Inr raw \<Rightarrow>
          (let explanation = py_strip raw
           in case resolve_config vision_config of
                Inl e \<Rightarrow> (except_block out ''analyze'' (exn_str e), [explanation_call])
              | Inr None \<Rightarrow>
                  (Responded (error_response
                     ''Vision API configuration missing. Please configure settings.'' 401),
                   [explanation_call])
              | Inr (Some (viz_client, viz_model)) \<Rightarrow>
          (let viz_call =
                 Call viz_client viz_model
                   (viz_messages (py_format fmt context) explanation
                      (py_format fmt full_context))
                   None
           in case invoke viz_call of
                Inl m \<Rightarrow> (except_block out ''analyze'' m, [explanation_call, viz_call])
              | Inr raw2 \<Rightarrow>
                  (Responded
                     (JObj [(''explanation'', JStr explanation),
                            (''visualization'', JStr (analyze_cleanup raw2))], 200),
                   [explanation_call, viz_call]))))))
      | _ \<Rightarrow> (except_block out ''analyze'' (exn_str (AttributeError (type_name data) ''get'')),
               [])))"

text \<open>Lines 178-217: the template is chosen by \<^verbatim>\<open>target_format == 'tex'\<close>.\<close>

definition convert_prompt :: "json \<Rightarrow> string \<Rightarrow> string" where
  "convert_prompt target_format content =
     (if target_format = JStr ''tex'' then tex_prompt content else md_prompt content)"

text \<open>
  Line 176, \<^verbatim>\<open>print(f"Requesting format conversion to {target_format}...")\<close>, stands
  inside the \<^verbatim>\<open>try\<close>, after the client is built and before the template is chosen.
  (\<open>invoke\<close> reports a failure of the client with the call, so for a request on which
  both the constructor of the client and this \<^verbatim>\<open>print\<close> raise, the message below is the
  one of the \<^verbatim>\<open>print\<close>, in the source the one of the constructor; status and calls agree.)
\<close>

definition convert_format ::
  "stdout \<Rightarrow> (json \<Rightarrow> string) \<Rightarrow> invoker \<Rightarrow> request_json \<Rightarrow> outcome \<times> call list" where
  "convert_format out fmt invoke request =
     (case request of
        Raises m \<Rightarrow> (except_block out ''convert'' m, [])
      | Parsed data \<Rightarrow>
     (case data of
        JObj d \<Rightarrow>
          (let content = dict_get d ''content'' (JStr '''');
               target_format = dict_get d ''targetFormat'' (JStr ''tex'');
               reasoning_config = dict_get d ''reasoningConfig'' (JObj [])
           in if \<not> truthy content
              then (Responded (error_response ''No content provided'' 400), [])
              else
          (case resolve_config reasoning_config of
             Inl e \<Rightarrow> (except_block out ''convert'' (exn_str e), [])
           | Inr None \<Rightarrow>
               (Responded (error_response
                  ''Reasoning API configuration missing. Please configure settings.'' 401), [])
           | Inr (Some (client, model)) \<Rightarrow>
          (case out (''Requesting format conversion to '' @ py_format fmt target_format @ ''...'') of
             Some m \<Rightarrow> (except_block out ''convert'' m, [])
           | None \<Rightarrow>
          (let convert_call =
                 Call client model
                   (convert_messages (convert_prompt target_format (py_format fmt content)))
                   None
           in case invoke convert_call of
                Inl m \<Rightarrow> (except_block out ''convert'' m, [convert_call])
              | Inr raw \<Rightarrow>
                  (case convert_cleanup raw of
                     Inl e \<Rightarrow> (except_block out ''convert'' (exn_str e), [convert_call])
                   | Inr converted \<Rightarrow>
                       (Responded (JObj [(''converted'', JStr converted)], 200),
                        [convert_call]))))))
      | _ \<Rightarrow> (except_block out ''convert'' (exn_str (AttributeError (type_name data) ''get'')),
               [])))"

text \<open>Lines 266-286: the base prompt with the two optional blocks appended.\<close>

definition system_prompt :: "(json \<Rightarrow> string) \<Rightarrow> json \<Rightarrow> json \<Rightarrow> string" where
  "system_prompt fmt previous_context next_context =
     (let system_prompt = base_system_prompt;
          system_prompt = (if truthy previous_context
                           then system_prompt @ previous_block (py_format fmt previous_context)
                           else system_prompt);
          system_prompt = (if truthy next_context
                           then system_prompt @ next_block (py_format fmt next_context)
                           else system_prompt)
      in system_prompt)"

definition ocr ::
  "stdout \<Rightarrow> (json \<Rightarrow> string) \<Rightarrow> invoker \<Rightarrow> request_json \<Rightarrow> outcome \<times> call list" where
  "ocr out fmt invoke request =
     (case request of
        Raises m \<Rightarrow> (except_block out ''ocr'' m, [])
      | Parsed data \<Rightarrow>
     (case data of
        JObj d \<Rightarrow>
          (let image_data = dict_get d ''image'' (JStr '''');
               vision_config = dict_get d ''visionConfig'' (JObj []);
               previous_context = dict_get d ''previousContext'' (JStr '''');
               next_context = dict_get d ''nextContext'' (JStr '''')
           in if \<not> truthy image_data
              then (Responded (error_response ''No image provided'' 400), [])
              else
          (case resolve_config vision_config of
             Inl e \<Rightarrow> (except_block out ''ocr'' (exn_str e), [])
           | Inr None \<Rightarrow>
               (Responded (error_response
                  ''Vision API configuration missing. Please configure settings.'' 401), [])
           | Inr (Some (current_vision_client, current_vision_model)) \<Rightarrow>
          (let ocr_call =
                 Call current_vision_client current_vision_model
                   (ocr_messages (system_prompt fmt previous_context next_context) image_data)
                   (Some 2000)
           in case invoke ocr_call of
                Inl m \<Rightarrow> (except_block out ''ocr'' m, [ocr_call])
              | Inr raw \<Rightarrow>
                  (Responded (JObj [(''latex'', JStr (ocr_cleanup raw))], 200), [ocr_call]))))
      | _ \<Rightarrow> (except_block out ''ocr'' (exn_str (AttributeError (type_name data) ''get'')), [])))"

section \<open>Vocabulary of the properties\<close>

text \<open>
  A field of the body is missing or empty: the key is absent, or its value is falsy
  (the empty string, and also \<^verbatim>\<open>null\<close>, \<^verbatim>\<open>false\<close>, \<^verbatim>\<open>0\<close>, \<^verbatim>\<open>[]\<close>, \<^verbatim>\<open>{}\<close>).
\<close>

definition missing_or_empty :: "(string \<times> json) list \<Rightarrow> string \<Rightarrow> bool" where
  "missing_or_empty d k = (case map_of d k of None \<Rightarrow> True | Some v \<Rightarrow> \<not> truthy v)"

text \<open>
  A config block is missing: the key is absent, its value is falsy, or it is an object
  whose \<^verbatim>\<open>apiKey\<close> is missing or empty.
\<close>

definition config_missing :: "(string \<times> json) list \<Rightarrow> string \<Rightarrow> bool" where
  "config_missing d k =
     (case map_of d k of
        None \<Rightarrow> True
      | Some (JObj c) \<Rightarrow> missing_or_empty c ''apiKey''
      | Some v \<Rightarrow> \<not> truthy v)"

text \<open>Already clean text: trimmed, with no fence at either end.\<close>

definition clean :: "string \<Rightarrow> bool" where
  "clean s = (py_strip s = s \<and> \<not> prefix ''```'' s \<and> \<not> suffix ''```'' s)"

text \<open>The HTTP status the caller sees.\<close>

fun status_of :: "outcome \<Rightarrow> nat" where
  "status_of (Responded r) = snd r"
| "status_of (Unhandled m) = 500"

text \<open>
  Stand-ins for the parameters in closed examples: an invoker that answers every call
  with the same text, one that answers by the model name, a \<open>str\<close> for objects that
  are not strings (no example below formats one), a stdout that writes every line and one
  that raises on the listed lines with the listed messages.
\<close>

definition stub_invoker :: "string \<Rightarrow> invoker" where
  "stub_invoker text c = Inr text"

definition stub_invoker_by_model :: "(string \<times> (string + string)) list \<Rightarrow> invoker" where
  "stub_invoker_by_model answers c =
     (case call_model c of
        JStr m \<Rightarrow> (case map_of answers m of Some r \<Rightarrow> r | None \<Rightarrow> Inl ''unknown model'')
      | _ \<Rightarrow> Inl ''unknown model'')"

definition stub_str :: "json \<Rightarrow> string" where
  "stub_str v = ''<object>''"

definition stub_stdout :: stdout where
  "stub_stdout line = None"

definition stub_stdout_failing :: "(string \<times> string) list \<Rightarrow> stdout" where
  "stub_stdout_failing failures line = map_of failures line"

text \<open>
  The message of the \<^verbatim>\<open>UnicodeEncodeError\<close> that a stdout with the ASCII encoding raises
  on a line whose only character outside ASCII is \<open>CHR 0xE9\<close>, at the given position.
\<close>

definition ascii_codec_error :: "string \<Rightarrow> string" where
  "ascii_codec_error position =
     [CHR 0x27] @ ''ascii'' @ [CHR 0x27] @ '' codec can'' @ [CHR 0x27] @ ''t encode character ''
     @ [CHR 0x27, CHR 0x5C] @ ''xe9'' @ [CHR 0x27] @ '' in position '' @ position
     @ '': ordinal not in range(128)''"

text \<open>A response body is a JSON object with exactly the given keys, each holding a string.\<close>

fun is_str :: "json \<Rightarrow> bool" where
  "is_str (JStr s) = True"
| "is_str v = False"

definition has_shape :: "string list \<Rightarrow> json \<Rightarrow> bool" where
  "has_shape keys b =
     (case b of JObj kvs \<Rightarrow> map fst kvs = keys \<and> list_all (\<lambda>kv. is_str (snd kv)) kvs | _ \<Rightarrow> False)"

text \<open>
  A response is a single JSON object of the success shape with status 200, or of the shape
  \<^verbatim>\<open>{error: message}\<close> with status 400, 401 or 500.
\<close>

definition response_ok :: "string list \<Rightarrow> response \<Rightarrow> bool" where
  "response_ok keys r =
     ((snd r = 200 \<and> has_shape keys (fst r))
      \<or> (snd r \<in> {400, 401, 500} \<and> has_shape [''error''] (fst r)))"

text \<open>
  An outcome is such a response, or an exception raised by the \<^verbatim>\<open>print\<close> of the \<^verbatim>\<open>except\<close>
  block of the handler \<open>name\<close>.
\<close>

definition outcome_ok :: "stdout \<Rightarrow> string \<Rightarrow> string list \<Rightarrow> outcome \<Rightarrow> bool" where
  "outcome_ok out name keys oc =
     (case oc of
        Responded r \<Rightarrow> response_ok keys r
      | Unhandled m \<Rightarrow> \<exists>e. out (''Error in '' @ name @ '': '' @ e) = Some m)"

text \<open>A usable config block, as the end-to-end scenario of the specification has it.\<close>

definition example_config :: json where
  "example_config = JObj [(''apiKey'', JStr ''k''), (''model'', JStr ''m'')]"

section \<open>Facts about the string operations\<close>

lemma rstrip_prefix: "\<exists>w. t = rev (dropWhile P (rev t)) @ w"
proof -
  have "rev (rev t) = rev (takeWhile P (rev t) @ dropWhile P (rev t))"
    by (simp only: takeWhile_dropWhile_id)
  then have "t = rev (dropWhile P (rev t)) @ rev (takeWhile P (rev t))"
    by (simp only: rev_append rev_rev_ident)
  then show ?thesis by blast
qed

lemma lstrip_stable: "xs = [] \<or> \<not> P (hd xs) \<Longrightarrow> dropWhile P xs = xs"
  by (cases xs) auto

lemma lstrip_head: "dropWhile P s = [] \<or> \<not> P (hd (dropWhile P s))"
  using hd_dropWhile by blast

lemma rstrip_keeps_head:
  assumes "t = [] \<or> \<not> P (hd t)"
  shows "rev (dropWhile P (rev t)) = [] \<or> \<not> P (hd (rev (dropWhile P (rev t))))"
proof -
  obtain w where w: "t = rev (dropWhile P (rev t)) @ w"
    using rstrip_prefix by blast
  show ?thesis
  proof (cases "rev (dropWhile P (rev t)) = []")
    case True
    then show ?thesis by simp
  next
    case False
    then have "hd t = hd (rev (dropWhile P (rev t)))"
      using w by (metis hd_append2)
    moreover have "t \<noteq> []"
      using False w by auto
    ultimately show ?thesis
      using assms by auto
  qed
qed

lemma py_strip_idem: "py_strip (py_strip s) = py_strip s"
proof -
  let ?t = "dropWhile py_isspace s"
  let ?u = "rev (dropWhile py_isspace (rev ?t))"
  have "?u = [] \<or> \<not> py_isspace (hd ?u)"
    by (rule rstrip_keeps_head) (rule lstrip_head)
  then have "dropWhile py_isspace ?u = ?u"
    by (rule lstrip_stable)
  then have "py_strip ?u = rev (dropWhile py_isspace (rev ?u))"
    by (simp add: py_strip_def)
  also have "\<dots> = rev (dropWhile py_isspace (dropWhile py_isspace (rev ?t)))"
    by simp
  also have "\<dots> = ?u"
    by (simp add: lstrip_stable lstrip_head)
  finally show ?thesis
    by (simp add: py_strip_def)
qed

lemma no_fence_no_tagged_fence:
  assumes "\<not> prefix ''```'' s"
  shows "\<not> prefix ''```html'' s" and "\<not> prefix ''```latex'' s" and "\<not> prefix ''```markdown'' s"
proof -
  have "prefix ''```'' (''```'' @ t)" for t :: string
    by (rule prefixI) simp
  then have "prefix ''```'' ''```html''" "prefix ''```'' ''```latex''" "prefix ''```'' ''```markdown''"
    by simp_all
  with assms show "\<not> prefix ''```html'' s" and "\<not> prefix ''```latex'' s"
    and "\<not> prefix ''```markdown'' s"
    using prefix_order.trans by blast+
qed

lemma analyze_cleanup_clean: "clean s \<Longrightarrow> analyze_cleanup s = s"
  using no_fence_no_tagged_fence(1) [of s] by (simp add: clean_def analyze_cleanup_def Let_def)

lemma convert_cleanup_clean: "clean s \<Longrightarrow> convert_cleanup s = Inr s"
  using no_fence_no_tagged_fence(2,3) [of s] by (simp add: clean_def convert_cleanup_def Let_def)

lemma ocr_cleanup_clean: "clean s \<Longrightarrow> ocr_cleanup s = s"
  using no_fence_no_tagged_fence(2) [of s] by (simp add: clean_def ocr_cleanup_def Let_def)

lemma convert_cleanup_trimmed: "convert_cleanup x = Inr y \<Longrightarrow> py_strip y = y"
  by (auto simp: convert_cleanup_def Let_def py_strip_idem split: sum.splits if_splits)

lemma ocr_cleanup_trimmed: "py_strip (ocr_cleanup x) = ocr_cleanup x"
  by (simp add: ocr_cleanup_def Let_def py_strip_idem)

section \<open>The cleanup of model responses\<close>

text \<open>
  C2, as the code has it. Each cleanup removes one fence at each end, so it leaves
  already clean text unchanged: whenever the output of a cleanup is clean (trimmed, no
  fence at its start or end), a second application returns it unchanged. The outputs of
  the cleanups of \<^verbatim>\<open>convert_format\<close> (when it returns) and of \<^verbatim>\<open>ocr\<close> are always trimmed.
\<close>

theorem cleanup_idempotent_on_clean_output:
  "(clean (analyze_cleanup v) \<longrightarrow> analyze_cleanup (analyze_cleanup v) = analyze_cleanup v)
   \<and> (convert_cleanup c = Inr y \<longrightarrow> py_strip y = y \<and> (clean y \<longrightarrow> convert_cleanup y = Inr y))
   \<and> py_strip (ocr_cleanup l) = ocr_cleanup l
   \<and> (clean (ocr_cleanup l) \<longrightarrow> ocr_cleanup (ocr_cleanup l) = ocr_cleanup l)"
  by (simp add: analyze_cleanup_clean convert_cleanup_clean ocr_cleanup_clean
      convert_cleanup_trimmed ocr_cleanup_trimmed)

theorem cleanup_idempotent_on_clean_output_witness:
  "clean (analyze_cleanup ''```html<div/>```'')
   \<and> analyze_cleanup (analyze_cleanup ''```html<div/>```'') = analyze_cleanup ''```html<div/>```''
   \<and> convert_cleanup ''```latex\<newline>$x^2$\<newline>```'' = Inr ''$x^2$''
   \<and> clean ''$x^2$''
   \<and> convert_cleanup ''$x^2$'' = Inr ''$x^2$''
   \<and> clean (ocr_cleanup ''```latex\<newline>$x^2$\<newline>```'')
   \<and> ocr_cleanup (ocr_cleanup ''```latex\<newline>$x^2$\<newline>```'')
       = ocr_cleanup ''```latex\<newline>$x^2$\<newline>```''"
proof -
  have a: "clean (analyze_cleanup ''```html<div/>```'')"
    by code_simp
  have c: "convert_cleanup ''```latex\<newline>$x^2$\<newline>```'' = Inr ''$x^2$''"
    by code_simp
  have c': "clean ''$x^2$''"
    by code_simp
  have l: "clean (ocr_cleanup ''```latex\<newline>$x^2$\<newline>```'')"
    by code_simp
  show ?thesis
    using a c c' l
      cleanup_idempotent_on_clean_output
        [of "''```html<div/>```''" "''```latex\<newline>$x^2$\<newline>```''" "''$x^2$''"
            "''```latex\<newline>$x^2$\<newline>```''"]
    by blast
qed

text \<open>
  C2 as stated (idempotence for every string) fails where a second fence layer is left:
  on six backquotes followed by \<open>a\<close>, one application leaves a fence, the next removes it.
\<close>

theorem cleanup_idempotent_counterexample:
  "analyze_cleanup (analyze_cleanup ''``````a'') \<noteq> analyze_cleanup ''``````a''
   \<and> convert_cleanup ''``````a'' = Inr ''```a'' \<and> convert_cleanup ''```a'' = Inr ''a''
   \<and> ocr_cleanup (ocr_cleanup ''``````a'') \<noteq> ocr_cleanup ''``````a''"
  by code_simp

text \<open>
  C3: on the raw text \<^verbatim>\<open>```html\n<div/>\n```\<close> the cleanup of \<^verbatim>\<open>analyze\<close> removes the
  tagged fence and the closing fence and stops there: the two newlines stay, since the
  only \<^verbatim>\<open>strip\<close> comes before the fences are removed. The cleanups of \<^verbatim>\<open>convert_format\<close>
  and \<^verbatim>\<open>ocr\<close> end with a \<^verbatim>\<open>strip\<close> and return the bare payload on such text.
\<close>

theorem analyze_cleanup_html_fence:
  "analyze_cleanup ''```html\<newline><div/>\<newline>```'' = ''\<newline><div/>\<newline>''
   \<and> analyze_cleanup ''```html\<newline><div/>\<newline>```'' \<noteq> ''<div/>''
   \<and> ocr_cleanup ''```latex\<newline><div/>\<newline>```'' = ''<div/>''
   \<and> convert_cleanup ''```latex\<newline><div/>\<newline>```'' = Inr ''<div/>''"
  by code_simp

text \<open>
  C4: the cleanup of \<^verbatim>\<open>convert_format\<close> raises on a tagged fence opener with no
  newline after it (the index \<^verbatim>\<open>[1]\<close> of a one-element split), and the handler answers
  with status 500; the cleanup of \<^verbatim>\<open>ocr\<close> returns the empty text there.
\<close>

theorem convert_cleanup_raises_without_newline:
  "convert_cleanup ''```latex'' = Inl IndexError
   \<and> convert_cleanup ''```markdown'' = Inl IndexError
   \<and> ocr_cleanup ''```latex'' = []
   \<and> fst (convert_format stub_stdout stub_str (stub_invoker ''```latex'')
         (Parsed (JObj [(''content'', JStr ''# Title''),
                        (''reasoningConfig'', JObj [(''apiKey'', JStr ''k''), (''model'', JStr ''m'')])])))
       = Responded (JObj [(''error'', JStr ''list index out of range'')], 500)"
  by code_simp

section \<open>The paths through the handlers\<close>

lemma missing_or_empty_falsy:
  "missing_or_empty d k \<Longrightarrow> \<not> truthy (dict_get d k (JStr []))"
  by (simp add: missing_or_empty_def dict_get_def split: option.splits)

lemma config_missing_resolve:
  "config_missing d k \<longleftrightarrow> resolve_config (dict_get d k (JObj [])) = Inr None"
  by (auto simp: config_missing_def resolve_config_def dict_get_def missing_or_empty_def
      split: option.splits json.splits)

lemma analyze_step_validate:
  "\<not> truthy (dict_get d ''context'' (JStr [])) \<Longrightarrow>
   analyze out fmt invoke (Parsed (JObj d)) =
     (Responded (error_response ''No context provided'' 400), [])"
  by (simp add: analyze_def Let_def)

lemma analyze_step_reasoning:
  "truthy (dict_get d ''context'' (JStr [])) \<Longrightarrow>
   resolve_config (dict_get d ''reasoningConfig'' (JObj [])) = Inr None \<Longrightarrow>
   analyze out fmt invoke (Parsed (JObj d)) =
     (Responded (error_response
        ''Reasoning API configuration missing. Please configure settings.'' 401), [])"
  by (simp add: analyze_def Let_def)

lemma analyze_step_explanation_fails:
  "truthy (dict_get d ''context'' (JStr [])) \<Longrightarrow>
   resolve_config (dict_get d ''reasoningConfig'' (JObj [])) = Inr (Some (cl, mdl)) \<Longrightarrow>
   invoke (Call cl mdl (explanation_messages (py_format fmt (dict_get d ''context'' (JStr [])))
      (py_format fmt (dict_get d ''fullContext'' (JStr [])))) None) = Inl m \<Longrightarrow>
   analyze out fmt invoke (Parsed (JObj d)) =
     (except_block out ''analyze'' m,
      [Call cl mdl (explanation_messages (py_format fmt (dict_get d ''context'' (JStr [])))
      (py_format fmt (dict_get d ''fullContext'' (JStr [])))) None])"
  by (simp add: analyze_def Let_def)

lemma analyze_step_vision:
  "truthy (dict_get d ''context'' (JStr [])) \<Longrightarrow>
   resolve_config (dict_get d ''reasoningConfig'' (JObj [])) = Inr (Some (cl, mdl)) \<Longrightarrow>
   invoke (Call cl mdl (explanation_messages (py_format fmt (dict_get d ''context'' (JStr [])))
      (py_format fmt (dict_get d ''fullContext'' (JStr [])))) None) = Inr raw \<Longrightarrow>
   resolve_config (dict_get d ''visionConfig'' (JObj [])) = Inr None \<Longrightarrow>
   analyze out fmt invoke (Parsed (JObj d)) =
     (Responded (error_response
        ''Vision API configuration missing. Please configure settings.'' 401),
      [Call cl mdl (explanation_messages (py_format fmt (dict_get d ''context'' (JStr [])))
      (py_format fmt (dict_get d ''fullContext'' (JStr [])))) None])"
  by (simp add: analyze_def Let_def)

lemma analyze_step_viz:
  "truthy (dict_get d ''context'' (JStr [])) \<Longrightarrow>
   resolve_config (dict_get d ''reasoningConfig'' (JObj [])) = Inr (Some (cl, mdl)) \<Longrightarrow>
   invoke (Call cl mdl (explanation_messages (py_format fmt (dict_get d ''context'' (JStr [])))
      (py_format fmt (dict_get d ''fullContext'' (JStr [])))) None) = Inr raw \<Longrightarrow>
   resolve_config (dict_get d ''visionConfig'' (JObj [])) = Inr (Some (vcl, vmdl)) \<Longrightarrow>
   analyze out fmt invoke (Parsed (JObj d)) =
     (let c1 = Call cl mdl (explanation_messages (py_format fmt (dict_get d ''context'' (JStr [])))
                 (py_format fmt (dict_get d ''fullContext'' (JStr [])))) None;
          c2 = Call vcl vmdl (viz_messages (py_format fmt (dict_get d ''context'' (JStr [])))
                 (py_strip raw) (py_format fmt (dict_get d ''fullContext'' (JStr [])))) None
      in case invoke c2 of
           Inl m \<Rightarrow> (except_block out ''analyze'' m, [c1, c2])
         | Inr raw2 \<Rightarrow>
             (Responded (JObj [(''explanation'', JStr (py_strip raw)),
                               (''visualization'', JStr (analyze_cleanup raw2))], 200),
              [c1, c2]))"
  by (simp add: analyze_def Let_def)

lemma convert_step_validate:
  "\<not> truthy (dict_get d ''content'' (JStr [])) \<Longrightarrow>
   convert_format out fmt invoke (Parsed (JObj d)) =
     (Responded (error_response ''No content provided'' 400), [])"
  by (simp add: convert_format_def Let_def)

lemma convert_step_reasoning:
  "truthy (dict_get d ''content'' (JStr [])) \<Longrightarrow>
   resolve_config (dict_get d ''reasoningConfig'' (JObj [])) = Inr None \<Longrightarrow>
   convert_format out fmt invoke (Parsed (JObj d)) =
     (Responded (error_response
        ''Reasoning API configuration missing. Please configure settings.'' 401), [])"
  by (simp add: convert_format_def Let_def)

lemma convert_step_log_fails:
  "truthy (dict_get d ''content'' (JStr [])) \<Longrightarrow>
   resolve_config (dict_get d ''reasoningConfig'' (JObj [])) = Inr (Some (cl, mdl)) \<Longrightarrow>
   out (''Requesting format conversion to ''
        @ py_format fmt (dict_get d ''targetFormat'' (JStr ''tex'')) @ ''...'') = Some m \<Longrightarrow>
   convert_format out fmt invoke (Parsed (JObj d)) = (except_block out ''convert'' m, [])"
  by (simp add: convert_format_def Let_def)

lemma convert_step_call:
  "truthy (dict_get d ''content'' (JStr [])) \<Longrightarrow>
   resolve_config (dict_get d ''reasoningConfig'' (JObj [])) = Inr (Some (cl, mdl)) \<Longrightarrow>
   out (''Requesting format conversion to ''
        @ py_format fmt (dict_get d ''targetFormat'' (JStr ''tex'')) @ ''...'') = None \<Longrightarrow>
   convert_format out fmt invoke (Parsed (JObj d)) =
     (let c = Call cl mdl (convert_messages (convert_prompt (dict_get d ''targetFormat'' (JStr ''tex''))
                 (py_format fmt (dict_get d ''content'' (JStr []))))) None
      in case invoke c of
           Inl m \<Rightarrow> (except_block out ''convert'' m, [c])
         | Inr raw \<Rightarrow>
             (case convert_cleanup raw of
                Inl e \<Rightarrow> (except_block out ''convert'' (exn_str e), [c])
              | Inr converted \<Rightarrow> (Responded (JObj [(''converted'', JStr converted)], 200), [c])))"
  by (simp add: convert_format_def Let_def)

lemma ocr_step_validate:
  "\<not> truthy (dict_get d ''image'' (JStr [])) \<Longrightarrow>
   ocr out fmt invoke (Parsed (JObj d)) = (Responded (error_response ''No image provided'' 400), [])"
  by (simp add: ocr_def Let_def)

lemma ocr_step_vision:
  "truthy (dict_get d ''image'' (JStr [])) \<Longrightarrow>
   resolve_config (dict_get d ''visionConfig'' (JObj [])) = Inr None \<Longrightarrow>
   ocr out fmt invoke (Parsed (JObj d)) =
     (Responded (error_response
        ''Vision API configuration missing. Please configure settings.'' 401), [])"
  by (simp add: ocr_def Let_def)

lemma ocr_step_call:
  "truthy (dict_get d ''image'' (JStr [])) \<Longrightarrow>
   resolve_config (dict_get d ''visionConfig'' (JObj [])) = Inr (Some (cl, mdl)) \<Longrightarrow>
   ocr out fmt invoke (Parsed (JObj d)) =
     (let c = Call cl mdl (ocr_messages (system_prompt fmt (dict_get d ''previousContext'' (JStr []))
                 (dict_get d ''nextContext'' (JStr []))) (dict_get d ''image'' (JStr []))) (Some 2000)
      in case invoke c of
           Inl m \<Rightarrow> (except_block out ''ocr'' m, [c])
         | Inr raw \<Rightarrow> (Responded (JObj [(''latex'', JStr (ocr_cleanup raw))], 200), [c]))"
  by (simp add: ocr_def Let_def)

lemma except_block_status: "status_of (except_block out name e) = 500"
  by (simp add: except_block_def error_response_def split: option.splits)

lemma except_block_written:
  "out (''Error in '' @ name @ '': '' @ e) = None \<Longrightarrow>
   except_block out name e = Responded (error_response e 500)"
  by (simp add: except_block_def)

lemma py_format_str: "py_format fmt (JStr s) = s"
  by (simp add: py_format_def)

lemma present_truthy:
  "\<not> missing_or_empty d k \<longleftrightarrow> truthy (dict_get d k (JStr []))"
  by (simp add: missing_or_empty_def dict_get_def split: option.splits)

lemma resolve_example_config:
  "resolve_config example_config = Inr (Some (Client (JStr ''k'') JNull, JStr ''m''))"
  by (simp add: resolve_config_def example_config_def dict_get_def)

section \<open>Facts about the prompts\<close>

lemma sublist_here: "sublist xs (xs @ ys)"
  by (rule sublist_append_rightI)

lemma sublist_skip: "sublist xs ys \<Longrightarrow> sublist xs (zs @ ys)"
  by (auto simp: sublist_def) (metis append.assoc)

lemma viz_prompt_sublist: "sublist explanation (viz_prompt ctx explanation full_ctx)"
  unfolding viz_prompt_def by (rule sublist_here | rule sublist_skip)+

lemma previous_block_sublist: "sublist previous_context (previous_block previous_context)"
  unfolding previous_block_def by (rule sublist_here | rule sublist_skip)+

lemma previous_block_instruction:
  "sublist ''INSTRUCTION: Ensure your transcription flows naturally from this previous context.''
     (previous_block previous_context)"
  unfolding previous_block_def by (rule sublist_order.order.refl | rule sublist_skip)+

lemma next_block_sublist: "sublist next_context (next_block next_context)"
  unfolding next_block_def by (rule sublist_here | rule sublist_skip)+

lemma next_block_instruction:
  "sublist ''INSTRUCTION: Ensure your transcription connects smoothly to this next context.''
     (next_block next_context)"
  unfolding next_block_def by (rule sublist_order.order.refl | rule sublist_skip)+

lemma system_prompt_eq:
  "system_prompt fmt previous_context next_context =
     base_system_prompt
     @ (if truthy previous_context then previous_block (py_format fmt previous_context) else [])
     @ (if truthy next_context then next_block (py_format fmt next_context) else [])"
  by (simp add: system_prompt_def Let_def)

lemma base_system_prompt_plain:
  "\<not> sublist ''PREVIOUS CONTEXT'' base_system_prompt"
  "\<not> sublist ''NEXT CONTEXT'' base_system_prompt"
  "\<not> sublist ''INSTRUCTION'' base_system_prompt"
  by code_simp+

section \<open>Validation and credentials\<close>

text \<open>
  C5, as the code has it: a request whose body is a JSON object with \<^verbatim>\<open>context\<close> (for
  \<^verbatim>\<open>analyze\<close>), \<^verbatim>\<open>content\<close> (for \<^verbatim>\<open>convert_format\<close>) or \<^verbatim>\<open>image\<close> (for \<^verbatim>\<open>ocr\<close>)
  missing or empty gets the validation error with status 400, and no model call is made.
  Nothing is assumed about the config blocks or the server log: the check comes before
  the resolution of the configs and before any line with a field is printed.
\<close>

theorem missing_field_validation_error:
  "(missing_or_empty d ''context'' \<longrightarrow>
      analyze out fmt invoke (Parsed (JObj d)) =
        (Responded (error_response ''No context provided'' 400), []))
   \<and> (missing_or_empty d ''content'' \<longrightarrow>
      convert_format out fmt invoke (Parsed (JObj d)) =
        (Responded (error_response ''No content provided'' 400), []))
   \<and> (missing_or_empty d ''image'' \<longrightarrow>
      ocr out fmt invoke (Parsed (JObj d)) =
        (Responded (error_response ''No image provided'' 400), []))"
  using present_truthy [of d]
  by (blast intro: analyze_step_validate convert_step_validate ocr_step_validate)

text \<open>
  An instance: the three fields are absent and \<^verbatim>\<open>visionConfig\<close> is a string, on which
  the resolution would raise.
\<close>

theorem missing_field_validation_error_witness:
  "missing_or_empty [(''visionConfig'', JStr ''none'')] ''context''
   \<and> missing_or_empty [(''visionConfig'', JStr ''none'')] ''content''
   \<and> missing_or_empty [(''visionConfig'', JStr ''none'')] ''image''
   \<and> analyze stub_stdout stub_str (stub_invoker ''text'')
         (Parsed (JObj [(''visionConfig'', JStr ''none'')]))
       = (Responded (JObj [(''error'', JStr ''No context provided'')], 400), [])
   \<and> convert_format stub_stdout stub_str (stub_invoker ''text'')
         (Parsed (JObj [(''visionConfig'', JStr ''none'')]))
       = (Responded (JObj [(''error'', JStr ''No content provided'')], 400), [])
   \<and> ocr stub_stdout stub_str (stub_invoker ''text'')
         (Parsed (JObj [(''visionConfig'', JStr ''none'')]))
       = (Responded (JObj [(''error'', JStr ''No image provided'')], 400), [])"
proof -
  have m: "missing_or_empty [(''visionConfig'', JStr ''none'')] ''context''"
    "missing_or_empty [(''visionConfig'', JStr ''none'')] ''content''"
    "missing_or_empty [(''visionConfig'', JStr ''none'')] ''image''"
    by (simp_all add: missing_or_empty_def)
  show ?thesis
    using m missing_field_validation_error
      [of "[(''visionConfig'', JStr ''none'')]" stub_stdout stub_str "stub_invoker ''text''"]
    by (simp add: error_response_def)
qed

text \<open>
  C5 as stated (every well-formed JSON body) fails on a body that is not an object: the
  empty list and \<^verbatim>\<open>null\<close> have no \<^verbatim>\<open>get\<close>, the \<^verbatim>\<open>except\<close> block answers with status
  500, not with the validation error.
\<close>

theorem missing_field_validation_error_counterexample:
  "analyze stub_stdout stub_str (stub_invoker ''text'') (Parsed (JArr []))
     = (Responded (JObj [(''error'',
          JStr ([CHR 0x27] @ ''list'' @ [CHR 0x27] @ '' object has no attribute ''
                @ [CHR 0x27] @ ''get'' @ [CHR 0x27]))], 500), [])
   \<and> convert_format stub_stdout stub_str (stub_invoker ''text'') (Parsed JNull)
     = (Responded (JObj [(''error'',
          JStr ([CHR 0x27] @ ''NoneType'' @ [CHR 0x27] @ '' object has no attribute ''
                @ [CHR 0x27] @ ''get'' @ [CHR 0x27]))], 500), [])
   \<and> status_of (fst (ocr stub_stdout stub_str (stub_invoker ''text'') (Parsed (JArr [])))) = 500"
  by (simp add: analyze_def convert_format_def ocr_def except_block_def stub_stdout_def
      error_response_def)

text \<open>
  C1, as the code has it. With the required field present:
  \<^item> \<^verbatim>\<open>convert_format\<close> without a usable \<^verbatim>\<open>reasoningConfig\<close>, \<^verbatim>\<open>ocr\<close> without a usable
    \<^verbatim>\<open>visionConfig\<close> and \<^verbatim>\<open>analyze\<close> without a usable \<^verbatim>\<open>reasoningConfig\<close> answer with the
    config-missing error, status 401, and make no model call;
  \<^item> \<^verbatim>\<open>analyze\<close> with a usable \<^verbatim>\<open>reasoningConfig\<close> and no usable \<^verbatim>\<open>visionConfig\<close> makes the
    explanation call first, as its only call: when that call returns it answers with the
    config-missing error, status 401; when that call raises the status is 500, with the
    message of the call as the error when the log line of the \<^verbatim>\<open>except\<close> block is written.
\<close>

theorem config_missing_unauthorized:
  "(\<not> missing_or_empty d ''content'' \<and> config_missing d ''reasoningConfig'' \<longrightarrow>
      convert_format out fmt invoke (Parsed (JObj d)) =
        (Responded (error_response
           ''Reasoning API configuration missing. Please configure settings.'' 401), []))
   \<and> (\<not> missing_or_empty d ''image'' \<and> config_missing d ''visionConfig'' \<longrightarrow>
      ocr out fmt invoke (Parsed (JObj d)) =
        (Responded (error_response
           ''Vision API configuration missing. Please configure settings.'' 401), []))
   \<and> (\<not> missing_or_empty d ''context'' \<and> config_missing d ''reasoningConfig'' \<longrightarrow>
      analyze out fmt invoke (Parsed (JObj d)) =
        (Responded (error_response
           ''Reasoning API configuration missing. Please configure settings.'' 401), []))
   \<and> (\<not> missing_or_empty d ''context''
        \<and> resolve_config (dict_get d ''reasoningConfig'' (JObj [])) = Inr (Some (cl, mdl))
        \<and> config_missing d ''visionConfig''
        \<and> c = Call cl mdl (explanation_messages (py_format fmt (dict_get d ''context'' (JStr [])))
                  (py_format fmt (dict_get d ''fullContext'' (JStr [])))) None \<longrightarrow>
      (invoke c = Inr raw \<longrightarrow>
         analyze out fmt invoke (Parsed (JObj d)) =
           (Responded (error_response
              ''Vision API configuration missing. Please configure settings.'' 401), [c]))
      \<and> (invoke c = Inl m \<longrightarrow>
         status_of (fst (analyze out fmt invoke (Parsed (JObj d)))) = 500
         \<and> snd (analyze out fmt invoke (Parsed (JObj d))) = [c]
         \<and> (out (''Error in analyze: '' @ m) = None \<longrightarrow>
              analyze out fmt invoke (Parsed (JObj d)) = (Responded (error_response m 500), [c]))))"
proof (intro conjI impI)
  assume "\<not> missing_or_empty d ''content'' \<and> config_missing d ''reasoningConfig''"
  then show "convert_format out fmt invoke (Parsed (JObj d)) =
      (Responded (error_response
         ''Reasoning API configuration missing. Please configure settings.'' 401), [])"
    by (simp add: present_truthy config_missing_resolve convert_step_reasoning)
next
  assume "\<not> missing_or_empty d ''image'' \<and> config_missing d ''visionConfig''"
  then show "ocr out fmt invoke (Parsed (JObj d)) =
      (Responded (error_response
         ''Vision API configuration missing. Please configure settings.'' 401), [])"
    by (simp add: present_truthy config_missing_resolve ocr_step_vision)
next
  assume "\<not> missing_or_empty d ''context'' \<and> config_missing d ''reasoningConfig''"
  then show "analyze out fmt invoke (Parsed (JObj d)) =
      (Responded (error_response
         ''Reasoning API configuration missing. Please configure settings.'' 401), [])"
    by (simp add: present_truthy config_missing_resolve analyze_step_reasoning)
next
  assume a: "\<not> missing_or_empty d ''context''
        \<and> resolve_config (dict_get d ''reasoningConfig'' (JObj [])) = Inr (Some (cl, mdl))
        \<and> config_missing d ''visionConfig''
        \<and> c = Call cl mdl (explanation_messages (py_format fmt (dict_get d ''context'' (JStr [])))
                  (py_format fmt (dict_get d ''fullContext'' (JStr [])))) None"
    and r: "invoke c = Inr raw"
  then show "analyze out fmt invoke (Parsed (JObj d)) =
      (Responded (error_response
         ''Vision API configuration missing. Please configure settings.'' 401), [c])"
    by (simp add: present_truthy config_missing_resolve analyze_step_vision)
next
  assume a: "\<not> missing_or_empty d ''context''
        \<and> resolve_config (dict_get d ''reasoningConfig'' (JObj [])) = Inr (Some (cl, mdl))
        \<and> config_missing d ''visionConfig''
        \<and> c = Call cl mdl (explanation_messages (py_format fmt (dict_get d ''context'' (JStr [])))
                  (py_format fmt (dict_get d ''fullContext'' (JStr [])))) None"
    and r: "invoke c = Inl m"
  then have e: "analyze out fmt invoke (Parsed (JObj d)) = (except_block out ''analyze'' m, [c])"
    by (simp add: present_truthy analyze_step_explanation_fails)
  show "status_of (fst (analyze out fmt invoke (Parsed (JObj d)))) = 500"
    by (simp add: e except_block_status)
  show "snd (analyze out fmt invoke (Parsed (JObj d))) = [c]"
    by (simp add: e)
  assume "out (''Error in analyze: '' @ m) = None"
  then show "analyze out fmt invoke (Parsed (JObj d)) = (Responded (error_response m 500), [c])"
    by (simp add: e except_block_def)
qed

theorem config_missing_unauthorized_witness:
  "convert_format stub_stdout stub_str (stub_invoker ''E'')
         (Parsed (JObj [(''content'', JStr ''# Title'')]))
     = (Responded
          (JObj [(''error'', JStr ''Reasoning API configuration missing. Please configure settings.'')],
           401), [])
   \<and> ocr stub_stdout stub_str (stub_invoker ''E'')
         (Parsed (JObj [(''image'', JStr ''data''), (''visionConfig'', JObj [(''apiKey'', JStr [])])]))
     = (Responded
          (JObj [(''error'', JStr ''Vision API configuration missing. Please configure settings.'')],
           401), [])
   \<and> analyze stub_stdout stub_str (stub_invoker ''E'')
         (Parsed (JObj [(''context'', JStr ''F = ma''), (''visionConfig'', example_config)]))
     = (Responded
          (JObj [(''error'', JStr ''Reasoning API configuration missing. Please configure settings.'')],
           401), [])
   \<and> analyze stub_stdout stub_str (stub_invoker ''E'')
         (Parsed (JObj [(''context'', JStr ''F = ma''), (''reasoningConfig'', example_config)]))
     = (Responded
          (JObj [(''error'', JStr ''Vision API configuration missing. Please configure settings.'')],
           401),
        [Call (Client (JStr ''k'') JNull) (JStr ''m'') (explanation_messages ''F = ma'' []) None])
   \<and> analyze stub_stdout stub_str (stub_invoker_by_model [(''m'', Inl ''quota exceeded'')])
         (Parsed (JObj [(''context'', JStr ''F = ma''), (''reasoningConfig'', example_config)]))
     = (Responded (JObj [(''error'', JStr ''quota exceeded'')], 500),
        [Call (Client (JStr ''k'') JNull) (JStr ''m'') (explanation_messages ''F = ma'' []) None])"
proof -
  let ?c = "Call (Client (JStr ''k'') JNull) (JStr ''m'') (explanation_messages ''F = ma'' []) None"
  let ?d = "[(''context'', JStr ''F = ma''), (''reasoningConfig'', example_config)]"
  have 1: "\<not> missing_or_empty [(''content'', JStr ''# Title'')] ''content''
      \<and> config_missing [(''content'', JStr ''# Title'')] ''reasoningConfig''"
    by (simp add: missing_or_empty_def config_missing_def)
  have 2: "\<not> missing_or_empty
        [(''image'', JStr ''data''), (''visionConfig'', JObj [(''apiKey'', JStr [])])] ''image''
      \<and> config_missing
        [(''image'', JStr ''data''), (''visionConfig'', JObj [(''apiKey'', JStr [])])] ''visionConfig''"
    by (simp add: missing_or_empty_def config_missing_def)
  have 3: "\<not> missing_or_empty
        [(''context'', JStr ''F = ma''), (''visionConfig'', example_config)] ''context''
      \<and> config_missing
        [(''context'', JStr ''F = ma''), (''visionConfig'', example_config)] ''reasoningConfig''"
    by (simp add: missing_or_empty_def config_missing_def)
  have 4: "\<not> missing_or_empty ?d ''context''
      \<and> resolve_config (dict_get ?d ''reasoningConfig'' (JObj []))
          = Inr (Some (Client (JStr ''k'') JNull, JStr ''m''))
      \<and> config_missing ?d ''visionConfig''
      \<and> ?c = Call (Client (JStr ''k'') JNull) (JStr ''m'')
                (explanation_messages (py_format stub_str (dict_get ?d ''context'' (JStr [])))
                   (py_format stub_str (dict_get ?d ''fullContext'' (JStr [])))) None"
    by (simp add: missing_or_empty_def config_missing_def dict_get_def resolve_example_config
        py_format_def)
  have 5: "stub_invoker ''E'' ?c = Inr ''E''"
    by (simp add: stub_invoker_def)
  have 6: "stub_invoker_by_model [(''m'', Inl ''quota exceeded'')] ?c = Inl ''quota exceeded''"
    by (simp add: stub_invoker_by_model_def)
  have 7: "stub_stdout (''Error in analyze: '' @ ''quota exceeded'') = None"
    by (simp add: stub_stdout_def)
  note t = config_missing_unauthorized [where fmt = stub_str and out = stub_stdout]
  note a = t [where d = "[(''content'', JStr ''# Title'')]" and invoke = "stub_invoker ''E''",
      THEN conjunct1, THEN mp, OF 1]
  note b = t [where d = "[(''image'', JStr ''data''), (''visionConfig'', JObj [(''apiKey'', JStr [])])]"
        and invoke = "stub_invoker ''E''",
      THEN conjunct2, THEN conjunct1, THEN mp, OF 2]
  note c = t [where d = "[(''context'', JStr ''F = ma''), (''visionConfig'', example_config)]"
        and invoke = "stub_invoker ''E''",
      THEN conjunct2, THEN conjunct2, THEN conjunct1, THEN mp, OF 3]
  note d = t [where d = ?d and invoke = "stub_invoker ''E''",
      THEN conjunct2, THEN conjunct2, THEN conjunct2, THEN mp, OF 4,
      THEN conjunct1, THEN mp, OF 5]
  note e = t [where d = ?d and invoke = "stub_invoker_by_model [(''m'', Inl ''quota exceeded'')]",
      THEN conjunct2, THEN conjunct2, THEN conjunct2, THEN mp, OF 4,
      THEN conjunct2, THEN mp, OF 6, THEN conjunct2, THEN conjunct2, THEN mp, OF 7]
  show ?thesis
    unfolding a b c d e error_response_def by (intro conjI refl)
qed

text \<open>
  C1 as stated fails in two ways. An \<^verbatim>\<open>analyze\<close> request with a usable \<^verbatim>\<open>reasoningConfig\<close>
  and no \<^verbatim>\<open>visionConfig\<close> has made one model call when the 401 is returned. A
  \<^verbatim>\<open>convert_format\<close> request with neither \<^verbatim>\<open>content\<close> nor \<^verbatim>\<open>reasoningConfig\<close> gets the
  validation error with status 400, not 401.
\<close>

theorem config_missing_unauthorized_counterexample:
  "config_missing [(''context'', JStr ''F = ma''), (''reasoningConfig'', example_config)]
     ''visionConfig''
   \<and> fst (analyze stub_stdout stub_str (stub_invoker ''E'')
         (Parsed (JObj [(''context'', JStr ''F = ma''), (''reasoningConfig'', example_config)])))
       = Responded
           (JObj [(''error'', JStr ''Vision API configuration missing. Please configure settings.'')],
            401)
   \<and> length (snd (analyze stub_stdout stub_str (stub_invoker ''E'')
         (Parsed (JObj [(''context'', JStr ''F = ma''), (''reasoningConfig'', example_config)]))))
       = 1
   \<and> config_missing [] ''reasoningConfig''
   \<and> fst (convert_format stub_stdout stub_str (stub_invoker ''E'') (Parsed (JObj [])))
       = Responded (JObj [(''error'', JStr ''No content provided'')], 400)"
proof -
  have "resolve_config (JObj []) = Inr None"
    by (simp add: resolve_config_def)
  then show ?thesis
    by (simp add: config_missing_def analyze_def convert_format_def Let_def dict_get_def
        resolve_example_config stub_invoker_def error_response_def)
qed

section \<open>Prompts and results\<close>

text \<open>
  C6: an \<^verbatim>\<open>analyze\<close> request that reaches the visualization stage (context present, both
  configs usable, the explanation call returned \<open>raw\<close>) makes exactly two calls, and the
  user prompt of the second contains the stripped explanation \<^verbatim>\<open>raw.strip()\<close> as a
  substring, whatever the server log does.
\<close>

theorem viz_prompt_contains_explanation:
  assumes "\<not> missing_or_empty d ''context''"
    and "resolve_config (dict_get d ''reasoningConfig'' (JObj [])) = Inr (Some (cl, mdl))"
    and "resolve_config (dict_get d ''visionConfig'' (JObj [])) = Inr (Some (vcl, vmdl))"
    and "ctx = py_format fmt (dict_get d ''context'' (JStr []))"
    and "full_ctx = py_format fmt (dict_get d ''fullContext'' (JStr []))"
    and "invoke (Call cl mdl (explanation_messages ctx full_ctx) None) = Inr raw"
  shows "snd (analyze out fmt invoke (Parsed (JObj d))) =
           [Call cl mdl (explanation_messages ctx full_ctx) None,
            Call vcl vmdl
              [Message ''system'' (Text ''You are a code generator. Output raw HTML/JS only.''),
               Message ''user'' (Text (viz_prompt ctx (py_strip raw) full_ctx))]
              None]
         \<and> sublist (py_strip raw) (viz_prompt ctx (py_strip raw) full_ctx)"
proof -
  have t: "truthy (dict_get d ''context'' (JStr []))"
    using assms(1) by (simp add: present_truthy)
  have i: "invoke (Call cl mdl
      (explanation_messages (py_format fmt (dict_get d ''context'' (JStr [])))
         (py_format fmt (dict_get d ''fullContext'' (JStr [])))) None) = Inr raw"
    using assms(6) unfolding assms(4,5) .
  from analyze_step_viz [where out = out and invoke = invoke and fmt = fmt and d = d and raw = raw,
      OF t assms(2) i assms(3)]
  have "snd (analyze out fmt invoke (Parsed (JObj d))) =
      [Call cl mdl (explanation_messages ctx full_ctx) None,
       Call vcl vmdl (viz_messages ctx (py_strip raw) full_ctx) None]"
    unfolding assms(4,5) by (simp add: Let_def split: sum.splits)
  then show ?thesis
    by (simp add: viz_messages_def viz_prompt_sublist)
qed

theorem viz_prompt_contains_explanation_witness:
  "snd (analyze stub_stdout stub_str (stub_invoker ''  Force is mass times acceleration. '')
          (Parsed (JObj [(''context'', JStr ''F = ma''), (''reasoningConfig'', example_config),
                         (''visionConfig'', example_config)]))) =
     [Call (Client (JStr ''k'') JNull) (JStr ''m'') (explanation_messages ''F = ma'' []) None,
      Call (Client (JStr ''k'') JNull) (JStr ''m'')
        [Message ''system'' (Text ''You are a code generator. Output raw HTML/JS only.''),
         Message ''user'' (Text (viz_prompt ''F = ma'' ''Force is mass times acceleration.'' []))]
        None]
   \<and> sublist ''Force is mass times acceleration.''
         (viz_prompt ''F = ma'' ''Force is mass times acceleration.'' [])"
proof -
  let ?d = "[(''context'', JStr ''F = ma''), (''reasoningConfig'', example_config),
             (''visionConfig'', example_config)]"
  have 1: "\<not> missing_or_empty ?d ''context''"
    by (simp add: missing_or_empty_def)
  have 2: "resolve_config (dict_get ?d ''reasoningConfig'' (JObj []))
      = Inr (Some (Client (JStr ''k'') JNull, JStr ''m''))"
    by (simp add: dict_get_def resolve_example_config)
  have 3: "resolve_config (dict_get ?d ''visionConfig'' (JObj []))
      = Inr (Some (Client (JStr ''k'') JNull, JStr ''m''))"
    by (simp add: dict_get_def resolve_example_config)
  have 4: "''F = ma'' = py_format stub_str (dict_get ?d ''context'' (JStr []))"
    by (simp add: dict_get_def py_format_def)
  have 5: "[] = py_format stub_str (dict_get ?d ''fullContext'' (JStr []))"
    by (simp add: dict_get_def py_format_def)
  have 6: "stub_invoker ''  Force is mass times acceleration. ''
      (Call (Client (JStr ''k'') JNull) (JStr ''m'') (explanation_messages ''F = ma'' []) None)
      = Inr ''  Force is mass times acceleration. ''"
    by (simp add: stub_invoker_def)
  have 7: "py_strip ''  Force is mass times acceleration. '' = ''Force is mass times acceleration.''"
    by code_simp
  show ?thesis
    using viz_prompt_contains_explanation
      [where out = stub_stdout
          and invoke = "stub_invoker ''  Force is mass times acceleration. ''" and fmt = stub_str,
        OF 1 2 3 4 5 6]
    unfolding 7 .
qed

text \<open>
  C7: the prompt of \<^verbatim>\<open>ocr\<close> is the base prompt followed by one block for a non-empty
  \<^verbatim>\<open>previousContext\<close> and one for a non-empty \<^verbatim>\<open>nextContext\<close>. A block holds the literal
  context text and its continuity instruction. With both contexts empty the prompt is
  the base prompt, which holds no block header and no instruction. This prompt is the text
  part of the one call that \<^verbatim>\<open>ocr\<close> makes.
\<close>

theorem ocr_prompt_stitching:
  "system_prompt fmt previous_context next_context =
     base_system_prompt
     @ (if truthy previous_context then previous_block (py_format fmt previous_context) else [])
     @ (if truthy next_context then next_block (py_format fmt next_context) else [])
   \<and> (truthy previous_context \<longrightarrow>
        sublist (py_format fmt previous_context) (system_prompt fmt previous_context next_context)
        \<and> sublist ''INSTRUCTION: Ensure your transcription flows naturally from this previous context.''
            (system_prompt fmt previous_context next_context))
   \<and> (truthy next_context \<longrightarrow>
        sublist (py_format fmt next_context) (system_prompt fmt previous_context next_context)
        \<and> sublist ''INSTRUCTION: Ensure your transcription connects smoothly to this next context.''
            (system_prompt fmt previous_context next_context))
   \<and> (\<not> truthy previous_context \<and> \<not> truthy next_context \<longrightarrow>
        system_prompt fmt previous_context next_context = base_system_prompt
        \<and> \<not> sublist ''PREVIOUS CONTEXT'' (system_prompt fmt previous_context next_context)
        \<and> \<not> sublist ''NEXT CONTEXT'' (system_prompt fmt previous_context next_context)
        \<and> \<not> sublist ''INSTRUCTION'' (system_prompt fmt previous_context next_context))
   \<and> (\<not> missing_or_empty d ''image''
        \<and> resolve_config (dict_get d ''visionConfig'' (JObj [])) = Inr (Some (cl, mdl))
        \<and> previous_context = dict_get d ''previousContext'' (JStr [])
        \<and> next_context = dict_get d ''nextContext'' (JStr []) \<longrightarrow>
        snd (ocr out fmt invoke (Parsed (JObj d))) =
          [Call cl mdl
             [Message ''user''
                (Parts [TextPart (system_prompt fmt previous_context next_context),
                        ImageUrlPart (dict_get d ''image'' (JStr []))])]
             (Some 2000)])"
proof (intro conjI impI)
  show "system_prompt fmt previous_context next_context =
     base_system_prompt
     @ (if truthy previous_context then previous_block (py_format fmt previous_context) else [])
     @ (if truthy next_context then next_block (py_format fmt next_context) else [])"
    by (rule system_prompt_eq)
next
  assume p: "truthy previous_context"
  have "sublist (previous_block (py_format fmt previous_context))
      (system_prompt fmt previous_context next_context)"
    unfolding system_prompt_eq using p by (simp add: sublist_here sublist_skip)
  then show "sublist (py_format fmt previous_context)
      (system_prompt fmt previous_context next_context)"
    and "sublist ''INSTRUCTION: Ensure your transcription flows naturally from this previous context.''
      (system_prompt fmt previous_context next_context)"
    using previous_block_sublist previous_block_instruction sublist_order.order.trans by blast+
next
  assume n: "truthy next_context"
  have "sublist (next_block (py_format fmt next_context))
      (system_prompt fmt previous_context next_context)"
    unfolding system_prompt_eq using n by (simp add: sublist_order.order.refl sublist_skip)
  then show "sublist (py_format fmt next_context)
      (system_prompt fmt previous_context next_context)"
    and "sublist ''INSTRUCTION: Ensure your transcription connects smoothly to this next context.''
      (system_prompt fmt previous_context next_context)"
    using next_block_sublist next_block_instruction sublist_order.order.trans by blast+
next
  assume e: "\<not> truthy previous_context \<and> \<not> truthy next_context"
  then show b: "system_prompt fmt previous_context next_context = base_system_prompt"
    by (simp add: system_prompt_eq)
  show "\<not> sublist ''PREVIOUS CONTEXT'' (system_prompt fmt previous_context next_context)"
    and "\<not> sublist ''NEXT CONTEXT'' (system_prompt fmt previous_context next_context)"
    and "\<not> sublist ''INSTRUCTION'' (system_prompt fmt previous_context next_context)"
    unfolding b by (rule base_system_prompt_plain)+
next
  assume a: "\<not> missing_or_empty d ''image''
        \<and> resolve_config (dict_get d ''visionConfig'' (JObj [])) = Inr (Some (cl, mdl))
        \<and> previous_context = dict_get d ''previousContext'' (JStr [])
        \<and> next_context = dict_get d ''nextContext'' (JStr [])"
  then have "truthy (dict_get d ''image'' (JStr []))"
    by (simp add: present_truthy)
  from ocr_step_call [where out = out and invoke = invoke and fmt = fmt, OF this, of cl mdl] a
  show "snd (ocr out fmt invoke (Parsed (JObj d))) =
          [Call cl mdl
             [Message ''user''
                (Parts [TextPart (system_prompt fmt previous_context next_context),
                        ImageUrlPart (dict_get d ''image'' (JStr []))])]
             (Some 2000)]"
    by (simp add: Let_def ocr_messages_def split: sum.splits)
qed

theorem ocr_prompt_stitching_witness:
  "sublist ''Therefore'' (system_prompt stub_str (JStr ''Therefore'') (JStr ''QED''))
   \<and> sublist ''INSTRUCTION: Ensure your transcription flows naturally from this previous context.''
        (system_prompt stub_str (JStr ''Therefore'') (JStr ''QED''))
   \<and> sublist ''QED'' (system_prompt stub_str (JStr ''Therefore'') (JStr ''QED''))
   \<and> sublist ''INSTRUCTION: Ensure your transcription connects smoothly to this next context.''
        (system_prompt stub_str (JStr ''Therefore'') (JStr ''QED''))
   \<and> system_prompt stub_str (JStr []) (JStr []) = base_system_prompt
   \<and> \<not> sublist ''INSTRUCTION'' (system_prompt stub_str (JStr []) (JStr []))
   \<and> snd (ocr stub_stdout stub_str (stub_invoker ''x'')
         (Parsed (JObj [(''image'', JStr ''data''), (''visionConfig'', example_config)]))) =
       [Call (Client (JStr ''k'') JNull) (JStr ''m'')
          [Message ''user''
             (Parts [TextPart (system_prompt stub_str (JStr []) (JStr [])),
                     ImageUrlPart (JStr ''data'')])]
          (Some 2000)]"
proof -
  let ?d = "[(''image'', JStr ''data''), (''visionConfig'', example_config)]"
  have p: "truthy (JStr ''Therefore'')" and n: "truthy (JStr ''QED'')"
    by simp_all
  have e: "\<not> truthy (JStr []) \<and> \<not> truthy (JStr [])"
    by simp
  have h: "\<not> missing_or_empty ?d ''image''
      \<and> resolve_config (dict_get ?d ''visionConfig'' (JObj []))
          = Inr (Some (Client (JStr ''k'') JNull, JStr ''m''))
      \<and> JStr [] = dict_get ?d ''previousContext'' (JStr [])
      \<and> JStr [] = dict_get ?d ''nextContext'' (JStr [])"
    by (simp add: missing_or_empty_def dict_get_def resolve_example_config)
  have i: "dict_get ?d ''image'' (JStr []) = JStr ''data''"
    by (simp add: dict_get_def)
  note t = ocr_prompt_stitching [where fmt = stub_str and out = stub_stdout]
  note both = t [where previous_context = "JStr ''Therefore''" and next_context = "JStr ''QED''"]
  note none = t [where previous_context = "JStr []" and next_context = "JStr []"
      and d = ?d and invoke = "stub_invoker ''x''"]
  note a = both [THEN conjunct2, THEN conjunct1, THEN mp, OF p]
  note b = both [THEN conjunct2, THEN conjunct2, THEN conjunct1, THEN mp, OF n]
  note c = none [THEN conjunct2, THEN conjunct2, THEN conjunct2, THEN conjunct1, THEN mp, OF e]
  note d = none [THEN conjunct2, THEN conjunct2, THEN conjunct2, THEN conjunct2, THEN mp, OF h]
  have f: "py_format stub_str (JStr ''Therefore'') = ''Therefore''"
    "py_format stub_str (JStr ''QED'') = ''QED''"
    by (simp_all add: py_format_def)
  show ?thesis
    using a b c d unfolding f i by blast
qed

text \<open>
  C8: an \<^verbatim>\<open>ocr\<close> request with a non-empty \<^verbatim>\<open>image\<close> and a \<^verbatim>\<open>visionConfig\<close> whose
  \<^verbatim>\<open>apiKey\<close> is \<open>k\<close> and whose \<^verbatim>\<open>model\<close> is \<open>m\<close>, whose model call returns the raw text
  \<^verbatim>\<open>```latex\n$x^2$\n```\<close>, is answered with exactly \<^verbatim>\<open>{latex: "$x^2$"}\<close> and status 200,
  after that one call.
\<close>

theorem ocr_end_to_end:
  assumes "\<not> missing_or_empty d ''image''"
    and "map_of d ''visionConfig'' = Some (JObj cfg)"
    and "map_of cfg ''apiKey'' = Some (JStr ''k'')"
    and "map_of cfg ''model'' = Some (JStr ''m'')"
    and "c = Call (Client (JStr ''k'') (dict_get cfg ''baseUrl'' JNull)) (JStr ''m'')
               (ocr_messages
                  (system_prompt fmt (dict_get d ''previousContext'' (JStr []))
                     (dict_get d ''nextContext'' (JStr [])))
                  (dict_get d ''image'' (JStr [])))
               (Some 2000)"
    and "invoke c = Inr ''```latex\<newline>$x^2$\<newline>```''"
  shows "ocr out fmt invoke (Parsed (JObj d)) =
           (Responded (JObj [(''latex'', JStr ''$x^2$'')], 200), [c])"
proof -
  have t: "truthy (dict_get d ''image'' (JStr []))"
    using assms(1) by (simp add: present_truthy)
  have "cfg \<noteq> []"
    using assms(3) by auto
  then have r: "resolve_config (dict_get d ''visionConfig'' (JObj [])) =
      Inr (Some (Client (JStr ''k'') (dict_get cfg ''baseUrl'' JNull), JStr ''m''))"
    using assms(2,3,4) by (simp add: resolve_config_def dict_get_def)
  have l: "ocr_cleanup ''```latex\<newline>$x^2$\<newline>```'' = ''$x^2$''"
    by code_simp
  from ocr_step_call [where out = out and invoke = invoke and fmt = fmt, OF t r] assms(6)
  show ?thesis
    unfolding assms(5) by (simp add: Let_def l)
qed

theorem ocr_end_to_end_witness:
  "ocr stub_stdout stub_str (stub_invoker ''```latex\<newline>$x^2$\<newline>```'')
     (Parsed (JObj [(''image'', JStr ''<data>''), (''visionConfig'', example_config)]))
   = (Responded (JObj [(''latex'', JStr ''$x^2$'')], 200),
      [Call (Client (JStr ''k'') JNull) (JStr ''m'')
         (ocr_messages (system_prompt stub_str (JStr []) (JStr [])) (JStr ''<data>''))
         (Some 2000)])"
proof -
  let ?d = "[(''image'', JStr ''<data>''), (''visionConfig'', example_config)]"
  let ?cfg = "[(''apiKey'', JStr ''k''), (''model'', JStr ''m'')]"
  let ?c = "Call (Client (JStr ''k'') JNull) (JStr ''m'')
         (ocr_messages (system_prompt stub_str (JStr []) (JStr [])) (JStr ''<data>''))
         (Some 2000)"
  have 1: "\<not> missing_or_empty ?d ''image''"
    by (simp add: missing_or_empty_def)
  have 2: "map_of ?d ''visionConfig'' = Some (JObj ?cfg)"
    by (simp add: example_config_def)
  have 3: "map_of ?cfg ''apiKey'' = Some (JStr ''k'')"
    by simp
  have 4: "map_of ?cfg ''model'' = Some (JStr ''m'')"
    by simp
  have 5: "?c = Call (Client (JStr ''k'') (dict_get ?cfg ''baseUrl'' JNull)) (JStr ''m'')
               (ocr_messages
                  (system_prompt stub_str (dict_get ?d ''previousContext'' (JStr []))
                     (dict_get ?d ''nextContext'' (JStr [])))
                  (dict_get ?d ''image'' (JStr [])))
               (Some 2000)"
    by (simp add: dict_get_def)
  have 6: "stub_invoker ''```latex\<newline>$x^2$\<newline>```'' ?c = Inr ''```latex\<newline>$x^2$\<newline>```''"
    by (simp add: stub_invoker_def)
  show ?thesis
    by (rule ocr_end_to_end
        [where out = stub_stdout
           and invoke = "stub_invoker ''```latex\<newline>$x^2$\<newline>```''" and fmt = stub_str,
          OF 1 2 3 4 5 6])
qed

section \<open>The server log in the way of the response\<close>

text \<open>
  What the handlers do when the log lines are written. With \<^verbatim>\<open>content\<close> present and the
  line of line 176 written, \<^verbatim>\<open>targetFormat\<close> chooses the template: the LaTeX one when the
  field is absent or the string \<open>tex\<close>, the Markdown one for every other value; the status
  is never 400.
\<close>

lemma template_chosen_when_log_written:
  assumes "\<not> missing_or_empty d ''content''"
    and "content = py_format fmt (dict_get d ''content'' (JStr []))"
    and "out (''Requesting format conversion to ''
            @ py_format fmt (dict_get d ''targetFormat'' (JStr ''tex'')) @ ''...'') = None"
  shows "status_of (fst (convert_format out fmt invoke (Parsed (JObj d)))) \<in> {200, 401, 500}
    \<and> (resolve_config (dict_get d ''reasoningConfig'' (JObj [])) = Inr (Some (cl, mdl)) \<longrightarrow>
        (map_of d ''targetFormat'' = None \<or> map_of d ''targetFormat'' = Some (JStr ''tex'') \<longrightarrow>
           snd (convert_format out fmt invoke (Parsed (JObj d))) =
             [Call cl mdl (convert_messages (tex_prompt content)) None])
        \<and> (map_of d ''targetFormat'' = Some v \<and> v \<noteq> JStr ''tex'' \<longrightarrow>
           snd (convert_format out fmt invoke (Parsed (JObj d))) =
             [Call cl mdl (convert_messages (md_prompt content)) None]))"
proof (intro conjI impI)
  have t: "truthy (dict_get d ''content'' (JStr []))"
    using assms(1) by (simp add: present_truthy)
  then show "status_of (fst (convert_format out fmt invoke (Parsed (JObj d)))) \<in> {200, 401, 500}"
    by (simp add: convert_format_def Let_def error_response_def except_block_status
        split: sum.splits option.splits prod.splits)
  {
    assume r: "resolve_config (dict_get d ''reasoningConfig'' (JObj [])) = Inr (Some (cl, mdl))"
    have s: "snd (convert_format out fmt invoke (Parsed (JObj d))) =
        [Call cl mdl (convert_messages (convert_prompt (dict_get d ''targetFormat'' (JStr ''tex''))
           content)) None]"
      unfolding convert_step_call [where out = out and invoke = invoke and fmt = fmt,
          OF t r assms(3)] assms(2)
      by (simp add: Let_def split: sum.splits)
    {
      assume "map_of d ''targetFormat'' = None \<or> map_of d ''targetFormat'' = Some (JStr ''tex'')"
      then have "dict_get d ''targetFormat'' (JStr ''tex'') = JStr ''tex''"
        by (auto simp: dict_get_def)
      then show "snd (convert_format out fmt invoke (Parsed (JObj d))) =
          [Call cl mdl (convert_messages (tex_prompt content)) None]"
        using s by (simp add: convert_prompt_def)
    }
    {
      assume "map_of d ''targetFormat'' = Some v \<and> v \<noteq> JStr ''tex''"
      then have "dict_get d ''targetFormat'' (JStr ''tex'') \<noteq> JStr ''tex''"
        by (auto simp: dict_get_def)
      then show "snd (convert_format out fmt invoke (Parsed (JObj d))) =
          [Call cl mdl (convert_messages (md_prompt content)) None]"
        using s by (simp add: convert_prompt_def)
    }
  }
qed

text \<open>
  Every request is answered with the success shape and status 200, or with
  \<^verbatim>\<open>{error: message}\<close> and status 400, 401 or 500, unless the \<^verbatim>\<open>print\<close> of an \<^verbatim>\<open>except\<close>
  block raises.
\<close>

lemma outcome_ok_except_block: "outcome_ok out name keys (except_block out name e)"
  by (auto simp: outcome_ok_def except_block_def error_response_def response_ok_def
      has_shape_def split: option.splits)

lemma outcome_ok_error:
  "status \<in> {400, 401, 500} \<Longrightarrow> outcome_ok out name keys (Responded (error_response m status))"
  by (auto simp: outcome_ok_def error_response_def response_ok_def has_shape_def)

lemma outcome_ok_success:
  "map fst kvs = keys \<Longrightarrow> list_all (\<lambda>kv. is_str (snd kv)) kvs \<Longrightarrow>
   outcome_ok out name keys (Responded (JObj kvs, 200))"
  by (simp add: outcome_ok_def response_ok_def has_shape_def)

lemma json_object_unless_log_fails:
  "outcome_ok out ''analyze'' [''explanation'', ''visualization'']
     (fst (analyze out fmt invoke request))
   \<and> outcome_ok out ''convert'' [''converted''] (fst (convert_format out fmt invoke request))
   \<and> outcome_ok out ''ocr'' [''latex''] (fst (ocr out fmt invoke request))"
proof (intro conjI)
  show "outcome_ok out ''analyze'' [''explanation'', ''visualization'']
     (fst (analyze out fmt invoke request))"
    by (simp add: analyze_def Let_def outcome_ok_except_block outcome_ok_error
        outcome_ok_success
        split: request_json.splits json.splits sum.splits option.splits prod.splits)
  show "outcome_ok out ''convert'' [''converted''] (fst (convert_format out fmt invoke request))"
    by (simp add: convert_format_def Let_def outcome_ok_except_block outcome_ok_error
        outcome_ok_success
        split: request_json.splits json.splits sum.splits option.splits prod.splits)
  show "outcome_ok out ''ocr'' [''latex''] (fst (ocr out fmt invoke request))"
    by (simp add: ocr_def Let_def outcome_ok_except_block outcome_ok_error outcome_ok_success
        split: request_json.splits json.splits sum.splits option.splits prod.splits)
qed

text \<open>
  C10: the log line of line 176 carries \<^verbatim>\<open>targetFormat\<close> and is printed before the
  template is chosen. Here \<^verbatim>\<open>targetFormat\<close> is the one character \<open>CHR 0xE9\<close> and stdout
  has the ASCII encoding: the \<^verbatim>\<open>print\<close> raises, the \<^verbatim>\<open>except\<close> block answers with status
  500, no call is made and no template is chosen. On a stdout that writes the line, the
  same request is sent with the Markdown template.
\<close>

theorem target_format_log_line_raises:
  "convert_format
     (stub_stdout_failing
        [(''Requesting format conversion to '' @ [CHR 0xE9] @ ''...'', ascii_codec_error ''32'')])
     stub_str (stub_invoker ''text'')
     (Parsed (JObj [(''content'', JStr ''# Title''), (''targetFormat'', JStr [CHR 0xE9]),
                    (''reasoningConfig'', example_config)]))
     = (Responded (JObj [(''error'', JStr (ascii_codec_error ''32''))], 500), [])
   \<and> snd (convert_format stub_stdout stub_str (stub_invoker ''text'')
          (Parsed (JObj [(''content'', JStr ''# Title''), (''targetFormat'', JStr [CHR 0xE9]),
                         (''reasoningConfig'', example_config)])))
     = [Call (Client (JStr ''k'') JNull) (JStr ''m'') (convert_messages (md_prompt ''# Title'')) None]"
proof -
  let ?d = "[(''content'', JStr ''# Title''), (''targetFormat'', JStr [CHR 0xE9]),
             (''reasoningConfig'', example_config)]"
  let ?out = "stub_stdout_failing
        [(''Requesting format conversion to '' @ [CHR 0xE9] @ ''...'', ascii_codec_error ''32'')]"
  have t: "truthy (dict_get ?d ''content'' (JStr []))"
    by (simp add: dict_get_def)
  have r: "resolve_config (dict_get ?d ''reasoningConfig'' (JObj []))
      = Inr (Some (Client (JStr ''k'') JNull, JStr ''m''))"
    by (simp add: dict_get_def resolve_example_config)
  have g: "dict_get ?d ''targetFormat'' (JStr ''tex'') = JStr [CHR 0xE9]"
    "dict_get ?d ''content'' (JStr []) = JStr ''# Title''"
    by (simp_all add: dict_get_def)
  have 1: "?out (''Requesting format conversion to ''
      @ py_format stub_str (dict_get ?d ''targetFormat'' (JStr ''tex'')) @ ''...'')
      = Some (ascii_codec_error ''32'')"
    by (simp add: g py_format_str stub_stdout_failing_def)
  have "?out (''Error in '' @ ''convert'' @ '': '' @ ascii_codec_error ''32'') = None"
    by (simp add: stub_stdout_failing_def ascii_codec_error_def)
  then have 2: "except_block ?out ''convert'' (ascii_codec_error ''32'')
      = Responded (error_response (ascii_codec_error ''32'') 500)"
    by (rule except_block_written)
  have 3: "stub_stdout (''Requesting format conversion to ''
      @ py_format stub_str (dict_get ?d ''targetFormat'' (JStr ''tex'')) @ ''...'') = None"
    by (simp add: stub_stdout_def)
  have a: "convert_format ?out stub_str (stub_invoker ''text'') (Parsed (JObj ?d))
      = (Responded (JObj [(''error'', JStr (ascii_codec_error ''32''))], 500), [])"
    unfolding convert_step_log_fails [where out = ?out and fmt = stub_str, OF t r 1] 2
      error_response_def
    by (rule refl)
  have b: "snd (convert_format stub_stdout stub_str (stub_invoker ''text'') (Parsed (JObj ?d)))
      = [Call (Client (JStr ''k'') JNull) (JStr ''m'') (convert_messages (md_prompt ''# Title'')) None]"
    unfolding convert_step_call [where out = stub_stdout and fmt = stub_str, OF t r 3]
    by (simp add: g py_format_str Let_def convert_prompt_def split: sum.splits)
  from a b show ?thesis
    by (intro conjI)
qed

text \<open>
  C9: the \<^verbatim>\<open>except\<close> block prints the exception before it returns the error object.
  Here the model service fails with a message that holds the character \<open>CHR 0xE9\<close> and
  stdout has the ASCII encoding: the \<^verbatim>\<open>print\<close> raises, the exception leaves the
  handler, and the caller gets no JSON object from it, in each of the three handlers.
  On a stdout that writes the line, the same request is answered with the error object
  and status 500.
\<close>

theorem except_block_log_line_raises:
  "fst (analyze
          (stub_stdout_failing
             [(''Error in analyze: Cl'' @ [CHR 0xE9] @ '' API invalide'', ascii_codec_error ''20'')])
          stub_str (stub_invoker_by_model [(''m'', Inl (''Cl'' @ [CHR 0xE9] @ '' API invalide''))])
          (Parsed (JObj [(''context'', JStr ''F = ma''), (''reasoningConfig'', example_config),
                         (''visionConfig'', example_config)])))
     = Unhandled (ascii_codec_error ''20'')
   \<and> fst (convert_format
          (stub_stdout_failing
             [(''Error in convert: Cl'' @ [CHR 0xE9] @ '' API invalide'', ascii_codec_error ''20'')])
          stub_str (stub_invoker_by_model [(''m'', Inl (''Cl'' @ [CHR 0xE9] @ '' API invalide''))])
          (Parsed (JObj [(''content'', JStr ''# Title''), (''reasoningConfig'', example_config)])))
     = Unhandled (ascii_codec_error ''20'')
   \<and> fst (ocr
          (stub_stdout_failing
             [(''Error in ocr: Cl'' @ [CHR 0xE9] @ '' API invalide'', ascii_codec_error ''16'')])
          stub_str (stub_invoker_by_model [(''m'', Inl (''Cl'' @ [CHR 0xE9] @ '' API invalide''))])
          (Parsed (JObj [(''image'', JStr ''data''), (''visionConfig'', example_config)])))
     = Unhandled (ascii_codec_error ''16'')
   \<and> fst (convert_format stub_stdout
          stub_str (stub_invoker_by_model [(''m'', Inl (''Cl'' @ [CHR 0xE9] @ '' API invalide''))])
          (Parsed (JObj [(''content'', JStr ''# Title''), (''reasoningConfig'', example_config)])))
     = Responded (JObj [(''error'', JStr (''Cl'' @ [CHR 0xE9] @ '' API invalide''))], 500)"
  by (simp add: analyze_def convert_format_def ocr_def Let_def dict_get_def
      resolve_example_config py_format_def stub_invoker_by_model_def stub_stdout_failing_def
      stub_stdout_def except_block_def error_response_def)

end
